theory Spec2Isabelle
  imports Complex_Main "HOL-Library.Log_Nat"
begin

section \<open>Conventions of the embedding\<close>

text \<open>
  The sources are TypeScript. A JavaScript string is a sequence of UTF-16 code units; it is
  modelled as a list of code units, each a natural number (\<open>charCodeAt\<close> returns it).
  Comparing two one-unit strings with \<open><=\<close> and \<open>>=\<close>, as \<open>codeToNumericValues\<close> does,
  compares the two code units.

  A JavaScript \<open>number\<close> is a real. The wave pattern and the contrast ratio are computed
  with exact arithmetic (the specification describes the pattern as a sequence of real
  numbers as well); there the rounding of doubles changes a result in its sixteenth digit
  only. Where the source rounds a computed value to an integer (\<open>Math.round\<close> in the
  image generator), the rounding of each operation can decide the integer, and the
  arithmetic is that of doubles, defined below. The values NaN and Infinity are not
  modelled.

  Library functions that the sources call but do not define are parameters of the
  definitions that use them: \<open>String.prototype.toUpperCase\<close>, \<open>Number.prototype.toFixed\<close>,
  the code generator built by \<open>customAlphabet\<close> of nanoid, and the image library sharp,
  which \<open>generateWaveCode\<close> and \<open>generateThemedWaveCode\<close> call on the document they build.
\<close>

type_synonym jsstring = "nat list"

definition str :: "string \<Rightarrow> jsstring" where
  "str s = map of_char s"

text \<open>
  \<open>String.prototype.toUpperCase\<close> on strings whose code units are all below 256 (Basic
  Latin and Latin-1 Supplement), after the Unicode case mappings that ECMAScript
  prescribes: \<open>a\<close>..\<open>z\<close> and the accented lower-case letters move down by 32, the sharp s
  (U+00DF) becomes the two letters \<open>SS\<close>, the micro sign (U+00B5) becomes U+039C and
  U+00FF becomes U+0178. Code units from 256 up are returned unchanged here, which is not
  what JavaScript does for every one of them; this function is only applied to inputs
  below 256, and the general theorems are stated for an arbitrary \<open>toUpperCase\<close>.
\<close>

definition upperUnit_latin1 :: "nat \<Rightarrow> jsstring" where
  "upperUnit_latin1 u =
     (if 97 \<le> u \<and> u \<le> 122 then [u - 32]
      else if u = 181 then [924]
      else if u = 223 then [83, 83]
      else if 224 \<le> u \<and> u \<le> 254 \<and> u \<noteq> 247 then [u - 32]
      else if u = 255 then [376]
      else [u])"

definition toUpperCase_latin1 :: "jsstring \<Rightarrow> jsstring" where
  "toUpperCase_latin1 s = concat (map upperUnit_latin1 s)"

section \<open>Double-precision arithmetic\<close>

text \<open>
  \<open>toDouble x\<close> is the double nearest to \<open>x\<close>: \<open>x\<close> is scaled by a power of two into the range
  from \<open>2^52\<close> to \<open>2^53\<close>, rounded to the nearest integer, a tie going to the even one, and
  scaled back (a significand of 53 bits, rounding to nearest, ties to even, as IEEE 754
  prescribes for binary64 and ECMAScript for its arithmetic). \<open>binade x\<close> is the exponent
  \<open>e\<close> with \<open>2^e \<le> x < 2^(e+1)\<close>, for a positive \<open>x\<close>. The exponent is not bounded here: the
  definition is that of binary64 for results between \<open>2^-1022\<close> and \<open>2^1024\<close> in absolute value,
  which all values computed from a theme within the ranges of the theme schema are.
  \<open>dmul\<close> and \<open>ddiv\<close> are the JavaScript operators \<open>*\<close> and \<open>/\<close> on doubles.
\<close>

definition roundEven :: "real \<Rightarrow> int" where
  "roundEven x =
     (let f = \<lfloor>x\<rfloor>; d = x - of_int f
      in if d < 1 / 2 then f else if 1 / 2 < d then f + 1 else if even f then f else f + 1)"

definition binade :: "real \<Rightarrow> int" where
  "binade x = (if 1 \<le> x then bitlen \<lfloor>x\<rfloor> - 1 else - bitlen (\<lceil>1 / x\<rceil> - 1))"

definition toDouble :: "real \<Rightarrow> real" where
  "toDouble x =
     (if x = 0 then 0
      else let e = binade \<bar>x\<bar> - 52
           in sgn x * of_int (roundEven (\<bar>x\<bar> / 2 powi e)) * 2 powi e)"

definition dmul :: "real \<Rightarrow> real \<Rightarrow> real" where
  "dmul x y = toDouble (x * y)"

definition ddiv :: "real \<Rightarrow> real \<Rightarrow> real" where
  "ddiv x y = toDouble (x / y)"

section \<open>codeGenerator.ts\<close>

definition ALPHABET :: jsstring where
  "ALPHABET = str ''ABCDEFGHIJKLMNOPQRSTUVWXYZ0123456789''"

definition CODE_LENGTH :: nat where
  "CODE_LENGTH = 6"

text \<open>The regular expression \<open>/^[A-Z0-9]{6}$/\<close>: exactly six code units, each in
  \<open>A\<close>..\<open>Z\<close> (65..90) or \<open>0\<close>..\<open>9\<close> (48..57).\<close>

definition inClass_AZ09 :: "nat \<Rightarrow> bool" where
  "inClass_AZ09 ch = ((65 \<le> ch \<and> ch \<le> 90) \<or> (48 \<le> ch \<and> ch \<le> 57))"

definition validPattern :: "jsstring \<Rightarrow> bool" where
  "validPattern s = (length s = 6 \<and> list_all inClass_AZ09 s)"

text \<open>\<open>isValidCodeFormat\<close>: the empty string is falsy, so \<open>!code\<close> rejects it; the length
  test is on the string as given, the pattern test on its upper-case form.\<close>

definition isValidCodeFormat :: "(jsstring \<Rightarrow> jsstring) \<Rightarrow> jsstring \<Rightarrow> bool" where
  "isValidCodeFormat toUpperCase code =
     (if code = [] \<or> length code \<noteq> CODE_LENGTH then False
      else validPattern (toUpperCase code))"

text \<open>The arrow function that \<open>codeToNumericValues\<close> maps over the characters.\<close>

definition charValue :: "nat \<Rightarrow> int" where
  "charValue ch =
     (if 65 \<le> ch \<and> ch \<le> 90 then int ch - 65
      else if 48 \<le> ch \<and> ch \<le> 57 then int ch - 48 + 26
      else 0)"

definition codeToNumericValues :: "(jsstring \<Rightarrow> jsstring) \<Rightarrow> jsstring \<Rightarrow> int list" where
  "codeToNumericValues toUpperCase code = map charValue (toUpperCase code)"

text \<open>The body of the \<open>forEach\<close> callback of \<open>codeToWavePattern\<close>: four pushes onto
  \<open>bars\<close>. The constant \<open>seed\<close> is computed by the source and never used.\<close>

definition pushBars :: "real list \<Rightarrow> int \<times> nat \<Rightarrow> real list" where
  "pushBars bars vi =
     (case vi of (val, idx) \<Rightarrow>
        let maxValue = (35 :: real);
            normalizedVal = real_of_int val / maxValue;
            seed = (idx + 1) * 7;
            bars1 = bars @ [min 1 (normalizedVal * 0.8 + 0.2)];
            bars2 = bars1 @ [min 1 (normalizedVal * 1.1 + 0.1)];
            bars3 = bars2 @ [min 1 (normalizedVal * 0.95 + 0.15)];
            bars4 = bars3 @ [min 1 (normalizedVal * 0.85 + 0.2)]
        in bars4)"

definition codeToWavePattern :: "(jsstring \<Rightarrow> jsstring) \<Rightarrow> jsstring \<Rightarrow> real list" where
  "codeToWavePattern toUpperCase code =
     (let charValues = codeToNumericValues toUpperCase code
      in foldl pushBars [] (zip charValues [0 ..< length charValues]))"

text \<open>The arguments of the four \<open>Math.min(1, _)\<close> calls (lines 75 to 78), before the
  clamp, for a character value \<open>val\<close>.\<close>

definition preClamp :: "int \<Rightarrow> real list" where
  "preClamp val =
     (let normalizedVal = real_of_int val / 35
      in [normalizedVal * 0.8 + 0.2, normalizedVal * 1.1 + 0.1,
          normalizedVal * 0.95 + 0.15, normalizedVal * 0.85 + 0.2])"

text \<open>The four bars that one character of the upper-case form contributes.\<close>

definition barGroup :: "nat \<Rightarrow> real list" where
  "barGroup ch = map (min 1) (preClamp (charValue ch))"

text \<open>The specification's \<open>codeToOrdinal\<close>: the index of a character in the alphabet
  (\<open>indexOf\<close> gives the length of the list for a character that does not occur in it, which
  is never the case for a character of a valid code).\<close>

fun indexOf :: "nat list \<Rightarrow> nat \<Rightarrow> nat" where
  "indexOf [] ch = 0"
| "indexOf (a # as) ch = (if a = ch then 0 else Suc (indexOf as ch))"

definition alphabetIndex :: "nat \<Rightarrow> int" where
  "alphabetIndex ch = int (indexOf ALPHABET ch)"

text \<open>\<open>generateUniqueCodes\<close>. The generator \<open>generateCode\<close> built by nanoid is a parameter:
  \<open>generateCode n\<close> is the string that its call number \<open>n\<close> returns. The \<open>Set\<close> is a
  list without duplicates in insertion order, which is the order \<open>Array.from\<close> returns.
  The \<open>while\<close> loop has no bound, so the model is a partial function and \<open>None\<close> stands
  for a loop that never ends. \<open>count\<close> is taken as an integer.\<close>

definition setAdd :: "'a \<Rightarrow> 'a list \<Rightarrow> 'a list" where
  "setAdd x xs = (if x \<in> set xs then xs else xs @ [x])"

partial_function (option) generateUniqueCodes_loop ::
  "(nat \<Rightarrow> jsstring) \<Rightarrow> int \<Rightarrow> jsstring list \<Rightarrow> nat \<Rightarrow> jsstring list option" where
  "generateUniqueCodes_loop generateCode count codes n =
     (if int (length codes) < count
      then generateUniqueCodes_loop generateCode count (setAdd (generateCode n) codes) (Suc n)
      else Some codes)"

definition generateUniqueCodes :: "(nat \<Rightarrow> jsstring) \<Rightarrow> int \<Rightarrow> jsstring list option" where
  "generateUniqueCodes generateCode count = generateUniqueCodes_loop generateCode count [] 0"

text \<open>A generator for the examples: its first two calls return the same code.\<close>

definition exampleDraws :: "nat \<Rightarrow> jsstring" where
  "exampleDraws n = (if n < 2 then str ''K7QZ2M'' else if n = 2 then str ''ABC123'' else str ''XYZ789'')"

section \<open>theme.ts\<close>

datatype ColorType = Solid | Gradient | DualTone

datatype Shape = Rectangle | Rounded | Circular | Triangle

record ColorScheme =
  type :: ColorType
  primary :: jsstring
  secondary :: "jsstring option"
  background :: jsstring
  gradientAngle :: "real option"

record BarStyle =
  shape :: Shape
  thickness :: real
  spacing :: real
  roundness :: "real option"

record Effects =
  shadow :: bool
  shadowColor :: "jsstring option"
  shadowBlur :: "real option"
  opacity :: real

record Dimensions =
  width :: real
  height :: real
  dpi :: real

record ThemeConfig =
  colorScheme :: ColorScheme
  barStyle :: BarStyle
  effects :: Effects
  dimensions :: Dimensions

definition DEFAULT_THEME :: ThemeConfig where
  "DEFAULT_THEME =
     \<lparr>colorScheme = \<lparr>type = Solid, primary = str ''#000000'', secondary = None,
                     background = str ''#FFFFFF'', gradientAngle = None\<rparr>,
      barStyle = \<lparr>shape = Rectangle, thickness = 5, spacing = 3, roundness = None\<rparr>,
      effects = \<lparr>shadow = False, shadowColor = None, shadowBlur = None, opacity = 100\<rparr>,
      dimensions = \<lparr>width = 15, height = 5, dpi = 300\<rparr>\<rparr>"

text \<open>
  The argument of \<open>mergeWithDefault\<close>. Its TypeScript type is \<open>Partial<ThemeConfig> | null\<close>;
  the callers and the tests pass objects whose sections lack fields as well (with a cast),
  so every section is a record of optional fields: \<open>None\<close> is a property that the object
  does not have. A property that is present with the value \<open>undefined\<close> is not modelled.
\<close>

record ColorScheme_partial =
  type_p :: "ColorType option"
  primary_p :: "jsstring option"
  secondary_p :: "jsstring option"
  background_p :: "jsstring option"
  gradientAngle_p :: "real option"

record BarStyle_partial =
  shape_p :: "Shape option"
  thickness_p :: "real option"
  spacing_p :: "real option"
  roundness_p :: "real option"

record Effects_partial =
  shadow_p :: "bool option"
  shadowColor_p :: "jsstring option"
  shadowBlur_p :: "real option"
  opacity_p :: "real option"

record Dimensions_partial =
  width_p :: "real option"
  height_p :: "real option"
  dpi_p :: "real option"

record ThemeConfig_partial =
  colorScheme_p :: "ColorScheme_partial option"
  barStyle_p :: "BarStyle_partial option"
  effects_p :: "Effects_partial option"
  dimensions_p :: "Dimensions_partial option"

text \<open>Object spread \<open>{ ...d, ...p }\<close>, one property at a time: the property of \<open>p\<close> wins
  when \<open>p\<close> has it. \<open>spreadOpt\<close> is the same for a property that the result may lack.
  Spreading \<open>undefined\<close> (an absent section) adds nothing.\<close>

definition spread :: "'a \<Rightarrow> 'a option \<Rightarrow> 'a" where
  "spread d p = (case p of None \<Rightarrow> d | Some v \<Rightarrow> v)"

definition spreadOpt :: "'a option \<Rightarrow> 'a option \<Rightarrow> 'a option" where
  "spreadOpt d p = (case p of None \<Rightarrow> d | Some v \<Rightarrow> Some v)"

definition spreadColorScheme :: "ColorScheme \<Rightarrow> ColorScheme_partial option \<Rightarrow> ColorScheme" where
  "spreadColorScheme d p =
     (case p of None \<Rightarrow> d
      | Some q \<Rightarrow> \<lparr>type = spread (type d) (type_p q),
                   primary = spread (primary d) (primary_p q),
                   secondary = spreadOpt (secondary d) (secondary_p q),
                   background = spread (background d) (background_p q),
                   gradientAngle = spreadOpt (gradientAngle d) (gradientAngle_p q)\<rparr>)"

definition spreadBarStyle :: "BarStyle \<Rightarrow> BarStyle_partial option \<Rightarrow> BarStyle" where
  "spreadBarStyle d p =
     (case p of None \<Rightarrow> d
      | Some q \<Rightarrow> \<lparr>shape = spread (shape d) (shape_p q),
                   thickness = spread (thickness d) (thickness_p q),
                   spacing = spread (spacing d) (spacing_p q),
                   roundness = spreadOpt (roundness d) (roundness_p q)\<rparr>)"

definition spreadEffects :: "Effects \<Rightarrow> Effects_partial option \<Rightarrow> Effects" where
  "spreadEffects d p =
     (case p of None \<Rightarrow> d
      | Some q \<Rightarrow> \<lparr>shadow = spread (shadow d) (shadow_p q),
                   shadowColor = spreadOpt (shadowColor d) (shadowColor_p q),
                   shadowBlur = spreadOpt (shadowBlur d) (shadowBlur_p q),
                   opacity = spread (opacity d) (opacity_p q)\<rparr>)"

definition spreadDimensions :: "Dimensions \<Rightarrow> Dimensions_partial option \<Rightarrow> Dimensions" where
  "spreadDimensions d p =
     (case p of None \<Rightarrow> d
      | Some q \<Rightarrow> \<lparr>width = spread (width d) (width_p q),
                   height = spread (height d) (height_p q),
                   dpi = spread (dpi d) (dpi_p q)\<rparr>)"

definition mergeWithDefault :: "ThemeConfig_partial option \<Rightarrow> ThemeConfig" where
  "mergeWithDefault partial =
     (case partial of None \<Rightarrow> DEFAULT_THEME
      | Some p \<Rightarrow>
          \<lparr>colorScheme = spreadColorScheme (colorScheme DEFAULT_THEME) (colorScheme_p p),
           barStyle = spreadBarStyle (barStyle DEFAULT_THEME) (barStyle_p p),
           effects = spreadEffects (effects DEFAULT_THEME) (effects_p p),
           dimensions = spreadDimensions (dimensions DEFAULT_THEME) (dimensions_p p)\<rparr>)"

text \<open>The specification's reading of the merge, for one field: the value of the partial
  theme when it has the section and the section has the field, and the default otherwise.
  \<open>fallbackOpt\<close> is the same for a field that a theme may lack.\<close>

definition fallback :: "'a \<Rightarrow> 's option \<Rightarrow> ('s \<Rightarrow> 'a option) \<Rightarrow> 'a" where
  "fallback d section field =
     (case section of None \<Rightarrow> d
      | Some q \<Rightarrow> (case field q of None \<Rightarrow> d | Some v \<Rightarrow> v))"

definition fallbackOpt :: "'a option \<Rightarrow> 's option \<Rightarrow> ('s \<Rightarrow> 'a option) \<Rightarrow> 'a option" where
  "fallbackOpt d section field =
     (case section of None \<Rightarrow> d
      | Some q \<Rightarrow> (case field q of None \<Rightarrow> d | Some v \<Rightarrow> Some v))"

text \<open>The partial themes of the tests: no section at all, and only \<open>colorScheme.primary\<close>.\<close>

definition noSections :: ThemeConfig_partial where
  "noSections = \<lparr>colorScheme_p = None, barStyle_p = None, effects_p = None, dimensions_p = None\<rparr>"

definition onlyPrimary :: "jsstring \<Rightarrow> ThemeConfig_partial" where
  "onlyPrimary c =
     noSections\<lparr>colorScheme_p :=
       Some \<lparr>type_p = None, primary_p = Some c, secondary_p = None, background_p = None,
             gradientAngle_p = None\<rparr>\<rparr>"

text \<open>\<open>hexToRgb\<close>: the regular expression \<open>/^#?([a-f\d]{2})([a-f\d]{2})([a-f\d]{2})$/i\<close> accepts
  an optional \<open>#\<close> (code unit 35) and then exactly six hexadecimal digits of either case;
  \<open>parseInt(_, 16)\<close> reads each pair, and is only applied to digits that the expression has
  accepted.\<close>

record RGB =
  r :: nat
  g :: nat
  b :: nat

definition hexDigit :: "nat \<Rightarrow> nat option" where
  "hexDigit ch =
     (if 48 \<le> ch \<and> ch \<le> 57 then Some (ch - 48)
      else if 97 \<le> ch \<and> ch \<le> 102 then Some (ch - 87)
      else if 65 \<le> ch \<and> ch \<le> 70 then Some (ch - 55)
      else None)"

definition parseInt16 :: "jsstring \<Rightarrow> nat" where
  "parseInt16 s = foldl (\<lambda>acc ch. 16 * acc + the (hexDigit ch)) 0 s"

definition hexToRgb :: "jsstring \<Rightarrow> RGB option" where
  "hexToRgb hex =
     (let digits = (case hex of [] \<Rightarrow> [] | c # cs \<Rightarrow> if c = 35 then cs else hex)
      in if length digits = 6 \<and> list_all (\<lambda>ch. hexDigit ch \<noteq> None) digits
         then Some \<lparr>r = parseInt16 (take 2 digits),
                    g = parseInt16 (take 2 (drop 2 digits)),
                    b = parseInt16 (take 2 (drop 4 digits))\<rparr>
         else None)"

definition channel :: "nat \<Rightarrow> real" where
  "channel v0 =
     (let v = real v0 / 255
      in if v \<le> 0.03928 then v / 12.92 else ((v + 0.055) / 1.055) powr 2.4)"

definition getLuminance :: "jsstring \<Rightarrow> real" where
  "getLuminance hex =
     (case hexToRgb hex of None \<Rightarrow> 0
      | Some rgb \<Rightarrow> 0.2126 * channel (r rgb) + 0.7152 * channel (g rgb) + 0.0722 * channel (b rgb))"

definition getContrastRatio :: "jsstring \<Rightarrow> jsstring \<Rightarrow> real" where
  "getContrastRatio color1 color2 =
     (let l1 = getLuminance color1;
          l2 = getLuminance color2;
          lighter = max l1 l2;
          darker = min l1 l2
      in (lighter + 0.05) / (darker + 0.05))"

datatype WarningType = Contrast | Thickness | Opacity | Size | Dpi

datatype Severity = Warning | Error

text \<open>\<open>ThemeValidationWarning\<close>; its field \<open>type\<close> is called \<open>wtype\<close> here, since
  \<open>ColorScheme\<close> has a field of that name.\<close>

record ThemeValidationWarning =
  wtype :: WarningType
  message :: jsstring
  severity :: Severity

text \<open>\<open>validateTheme\<close>: five tests in sequence, each pushing onto \<open>warnings\<close>. The
  parameter \<open>toFixed\<close> stands for \<open>Number.prototype.toFixed\<close>, which formats the ratio
  inside the first message.\<close>

definition validateTheme ::
  "(real \<Rightarrow> nat \<Rightarrow> jsstring) \<Rightarrow> ThemeConfig \<Rightarrow> ThemeValidationWarning list" where
  "validateTheme toFixed theme =
     (let warnings0 = [];
          contrast = getContrastRatio (primary (colorScheme theme)) (background (colorScheme theme));
          warnings1 =
            (if contrast < 4.5
             then warnings0 @
               [\<lparr>wtype = Contrast,
                 message = str ''Low contrast ratio ('' @ toFixed contrast 2 @
                   str '':1). Recommended minimum is 4.5:1 for readability.'',
                 severity = (if contrast < 3 then Error else Warning)\<rparr>]
             else warnings0);
          warnings2 =
            (if thickness (barStyle theme) < 2
             then warnings1 @
               [\<lparr>wtype = Thickness,
                 message = str ''Bar thickness is very thin. This may affect scanning reliability.'',
                 severity = Warning\<rparr>]
             else warnings1);
          warnings3 =
            (if opacity (effects theme) < 70
             then warnings2 @
               [\<lparr>wtype = Opacity,
                 message = str ''Low opacity may affect print and scan quality.'',
                 severity = Warning\<rparr>]
             else warnings2);
          warnings4 =
            (if width (dimensions theme) < 5
             then warnings3 @
               [\<lparr>wtype = Size,
                 message = str ''Width is very small. Minimum recommended is 5mm.'',
                 severity = Warning\<rparr>]
             else warnings3);
          warnings5 =
            (if dpi (dimensions theme) < 300
             then warnings4 @
               [\<lparr>wtype = Dpi,
                 message = str ''DPI is too low for print quality. Minimum recommended is 300 DPI.'',
                 severity = Error\<rparr>]
             else warnings4)
      in warnings5)"

section \<open>imageGenerator.ts\<close>

text \<open>The bar dimensions that \<open>generateThemedWaveCode\<close> computes (lines 351 to 354), as
  functions of the merged theme, in the arithmetic of doubles and in the order in which
  JavaScript evaluates \<open>4 * barWidthScale * (dimensions.dpi / 300)\<close>. \<open>Math.round\<close> rounds
  a half upwards, as \<open>round\<close> does.\<close>

definition barWidthScale :: "ThemeConfig \<Rightarrow> real" where
  "barWidthScale theme = ddiv (thickness (barStyle theme)) 5"

definition spacingScale :: "ThemeConfig \<Rightarrow> real" where
  "spacingScale theme = ddiv (spacing (barStyle theme)) 3"

definition baseBarWidth :: "ThemeConfig \<Rightarrow> int" where
  "baseBarWidth theme =
     max 2 (round (dmul (dmul 4 (barWidthScale theme)) (ddiv (dpi (dimensions theme)) 300)))"

definition baseBarGap :: "ThemeConfig \<Rightarrow> int" where
  "baseBarGap theme =
     max 1 (round (dmul (dmul 2 (spacingScale theme)) (ddiv (dpi (dimensions theme)) 300)))"

text \<open>The values inside \<open>Math.round\<close>, before rounding and before the floors of 2 and 1.\<close>

definition unroundedBarWidth :: "ThemeConfig \<Rightarrow> real" where
  "unroundedBarWidth theme =
     dmul (dmul 4 (barWidthScale theme)) (ddiv (dpi (dimensions theme)) 300)"

definition unroundedBarGap :: "ThemeConfig \<Rightarrow> real" where
  "unroundedBarGap theme =
     dmul (dmul 2 (spacingScale theme)) (ddiv (dpi (dimensions theme)) 300)"

text \<open>A theme with one field replaced, to compare two themes that differ in that field.\<close>

definition withThickness :: "real \<Rightarrow> ThemeConfig \<Rightarrow> ThemeConfig" where
  "withThickness t theme = theme\<lparr>barStyle := (barStyle theme)\<lparr>thickness := t\<rparr>\<rparr>"

definition withSpacing :: "real \<Rightarrow> ThemeConfig \<Rightarrow> ThemeConfig" where
  "withSpacing sp theme = theme\<lparr>barStyle := (barStyle theme)\<lparr>spacing := sp\<rparr>\<rparr>"

definition withDpi :: "real \<Rightarrow> ThemeConfig \<Rightarrow> ThemeConfig" where
  "withDpi d theme = theme\<lparr>dimensions := (dimensions theme)\<lparr>dpi := d\<rparr>\<rparr>"

text \<open>
  The batch functions. A promise that has settled is a value of a sum type: \<open>Inl\<close> a
  rejection with its reason, \<open>Inr\<close> a fulfilment. \<open>Promise.all\<close> is fulfilled with all the
  values, in order, when every promise is fulfilled, and rejected as soon as one is; the
  reason is that of the first promise of the list that is rejected (JavaScript reports
  the one rejected first in time; no theorem below depends on which reason it is).
\<close>

fun promiseAll :: "('e + 'a) list \<Rightarrow> 'e + 'a list" where
  "promiseAll [] = Inr []"
| "promiseAll (p # ps) =
     (case p of Inl e \<Rightarrow> Inl e
      | Inr v \<Rightarrow> (case promiseAll ps of Inl e \<Rightarrow> Inl e | Inr vs \<Rightarrow> Inr (v # vs)))"

text \<open>The loop that \<open>generateWaveCodes\<close> and \<open>generateThemedWaveCodes\<close> share, word for
  word but for the renderer called: batches of 50 codes, the \<open>async\<close> callback pairing a
  code with its buffer, \<open>await Promise.all\<close>, and \<open>results.set\<close> for each pair. A rejected
  \<open>await\<close> throws, which leaves the function with that rejection.\<close>

definition setAll :: "('k \<rightharpoonup> 'v) \<Rightarrow> ('k \<times> 'v) list \<Rightarrow> ('k \<rightharpoonup> 'v)" where
  "setAll results batchResults = foldl (\<lambda>m (code, buffer). m(code \<mapsto> buffer)) results batchResults"

definition batchSize :: nat where
  "batchSize = 50"

function batchLoop ::
  "(jsstring \<Rightarrow> 'e + 'b) \<Rightarrow> jsstring list \<Rightarrow> nat \<Rightarrow> (jsstring \<rightharpoonup> 'b) \<Rightarrow> 'e + (jsstring \<rightharpoonup> 'b)" where
  "batchLoop render codes i results =
     (if i < length codes
      then (case promiseAll
                   (map (\<lambda>code. case render code of Inl e \<Rightarrow> Inl e | Inr buffer \<Rightarrow> Inr (code, buffer))
                        (take batchSize (drop i codes)))
            of Inl e \<Rightarrow> Inl e
             | Inr batchResults \<Rightarrow>
                 batchLoop render codes (i + batchSize) (setAll results batchResults))
      else Inr results)"
  by pat_completeness auto
termination
  by (relation "measure (\<lambda>(render, codes, i, results). length codes - i)")
    (auto simp: batchSize_def)

declare batchLoop.simps [simp del]

text \<open>
  The two renderers. Each computes the wave pattern of the code and the dimensions of the
  image, builds the text of an SVG document from them, and hands it to the image library
  sharp, whose promise it awaits. Building the text never fails; the library is a
  parameter, and its promise may be rejected. The document is represented by what it is
  built from: the \<open>width\<close> and \<open>height\<close> attributes of its root element, the density passed
  to \<open>withMetadata\<close>, and as its content the resolved options (or the merged theme) and
  the wave pattern, from which lines 238 to 260 (or 351 to 429) compute the markup.
\<close>

record WaveCodeOptions =
  width_o :: "real option"
  height_o :: "real option"
  barWidth_o :: "real option"
  barGap_o :: "real option"
  backgroundColor_o :: "jsstring option"
  barColor_o :: "jsstring option"
  dpi_o :: "real option"

record WaveCodeOptions_required =
  width_r :: real
  height_r :: real
  barWidth_r :: real
  barGap_r :: real
  backgroundColor_r :: jsstring
  barColor_r :: jsstring
  dpi_r :: real

definition DEFAULT_OPTIONS :: WaveCodeOptions_required where
  "DEFAULT_OPTIONS =
     \<lparr>width_r = 180, height_r = 60, barWidth_r = 4, barGap_r = 2,
      backgroundColor_r = str ''#FFFFFF'', barColor_r = str ''#000000'', dpi_r = 300\<rparr>"

text \<open>The default argument \<open>{}\<close> of \<open>options\<close>.\<close>

definition noOptions :: WaveCodeOptions where
  "noOptions =
     \<lparr>width_o = None, height_o = None, barWidth_o = None, barGap_o = None,
      backgroundColor_o = None, barColor_o = None, dpi_o = None\<rparr>"

definition spreadOptions :: "WaveCodeOptions_required \<Rightarrow> WaveCodeOptions \<Rightarrow> WaveCodeOptions_required" where
  "spreadOptions d p =
     \<lparr>width_r = spread (width_r d) (width_o p),
      height_r = spread (height_r d) (height_o p),
      barWidth_r = spread (barWidth_r d) (barWidth_o p),
      barGap_r = spread (barGap_r d) (barGap_o p),
      backgroundColor_r = spread (backgroundColor_r d) (backgroundColor_o p),
      barColor_r = spread (barColor_r d) (barColor_o p),
      dpi_r = spread (dpi_r d) (dpi_o p)\<rparr>"

record 'c Svg =
  svgWidth :: real
  svgHeight :: real
  svgDensity :: real
  svgContent :: 'c

definition mmToPixels :: "real \<Rightarrow> real \<Rightarrow> int" where
  "mmToPixels mm dpi' = round (dmul (ddiv mm (toDouble 25.4)) dpi')"

definition generateWaveCode ::
  "((WaveCodeOptions_required \<times> real list) Svg \<Rightarrow> 'e + 'b) \<Rightarrow> (jsstring \<Rightarrow> jsstring) \<Rightarrow>
     jsstring \<Rightarrow> WaveCodeOptions \<Rightarrow> 'e + 'b" where
  "generateWaveCode sharp toUpperCase code options =
     (let opts = spreadOptions DEFAULT_OPTIONS options;
          wavePattern = codeToWavePattern toUpperCase code
      in sharp \<lparr>svgWidth = width_r opts, svgHeight = height_r opts, svgDensity = dpi_r opts,
                svgContent = (opts, wavePattern)\<rparr>)"

definition generateThemedWaveCode ::
  "((ThemeConfig \<times> real list) Svg \<Rightarrow> 'e + 'b) \<Rightarrow> (jsstring \<Rightarrow> jsstring) \<Rightarrow>
     jsstring \<Rightarrow> ThemeConfig_partial option \<Rightarrow> 'e + 'b" where
  "generateThemedWaveCode sharp toUpperCase code themeConfig =
     (let theme = mergeWithDefault themeConfig;
          widthPx = mmToPixels (width (dimensions theme)) (dpi (dimensions theme));
          heightPx = mmToPixels (height (dimensions theme)) (dpi (dimensions theme));
          wavePattern = codeToWavePattern toUpperCase code
      in sharp \<lparr>svgWidth = real_of_int widthPx, svgHeight = real_of_int heightPx,
                svgDensity = dpi (dimensions theme), svgContent = (theme, wavePattern)\<rparr>)"

definition generateWaveCodes ::
  "((WaveCodeOptions_required \<times> real list) Svg \<Rightarrow> 'e + 'b) \<Rightarrow> (jsstring \<Rightarrow> jsstring) \<Rightarrow>
     jsstring list \<Rightarrow> WaveCodeOptions \<Rightarrow> 'e + (jsstring \<rightharpoonup> 'b)" where
  "generateWaveCodes sharp toUpperCase codes options =
     batchLoop (\<lambda>code. generateWaveCode sharp toUpperCase code options) codes 0 Map.empty"

definition generateThemedWaveCodes ::
  "((ThemeConfig \<times> real list) Svg \<Rightarrow> 'e + 'b) \<Rightarrow> (jsstring \<Rightarrow> jsstring) \<Rightarrow>
     jsstring list \<Rightarrow> ThemeConfig_partial option \<Rightarrow> 'e + (jsstring \<rightharpoonup> 'b)" where
  "generateThemedWaveCodes sharp toUpperCase codes themeConfig =
     batchLoop (\<lambda>code. generateThemedWaveCode sharp toUpperCase code themeConfig) codes 0 Map.empty"

text \<open>
  The image library for the examples, with the one cause of rejection that its
  documentation gives for a well-formed document: \<open>limitInputPixels\<close>, by default
  268402689 (\<open>0x3FFF * 0x3FFF\<close>), the number of pixels (width times height) above which
  sharp does not process an input and rejects. Every other document is rendered; the image
  is represented by the document.
\<close>

datatype sharpError = PixelLimitExceeded

definition sharpWithPixelLimit :: "'c Svg \<Rightarrow> sharpError + 'c Svg" where
  "sharpWithPixelLimit svg =
     (if svgWidth svg * svgHeight svg > 268402689 then Inl PixelLimitExceeded else Inr svg)"

text \<open>Options that ask for an image ten million pixels wide.\<close>

definition wideOptions :: WaveCodeOptions where
  "wideOptions = noOptions\<lparr>width_o := Some 10000000\<rparr>"

section \<open>The wave pattern of a valid code\<close>

lemma pushBars_append:
  "pushBars bars (val, idx) =
     bars @ [min 1 (real_of_int val / 35 * 0.8 + 0.2), min 1 (real_of_int val / 35 * 1.1 + 0.1),
             min 1 (real_of_int val / 35 * 0.95 + 0.15), min 1 (real_of_int val / 35 * 0.85 + 0.2)]"
  by (simp add: pushBars_def Let_def)

lemma pushBars_preClamp: "pushBars bars (val, idx) = bars @ map (min 1) (preClamp val)"
  by (simp add: pushBars_append preClamp_def Let_def)

lemma foldl_pushBars:
  "length is = length vs \<Longrightarrow>
   foldl pushBars bars (zip vs is) = bars @ concat (map (\<lambda>v. map (min 1) (preClamp v)) vs)"
proof (induction vs arbitrary: bars "is")
  case Nil
  then show ?case by simp
next
  case (Cons v vs)
  then obtain i is' where "is = i # is'" by (cases "is") auto
  with Cons show ?case by (simp add: pushBars_preClamp)
qed

lemma codeToWavePattern_concat:
  "codeToWavePattern toUpperCase code =
     concat (map (\<lambda>v. map (min 1) (preClamp v)) (codeToNumericValues toUpperCase code))"
  by (simp add: codeToWavePattern_def Let_def foldl_pushBars)

lemma ALPHABET_upt: "ALPHABET = [65 ..< 91] @ [48 ..< 58]"
  by (simp add: ALPHABET_def str_def upt_rec)

lemma indexOf_append:
  "indexOf (xs @ ys) ch = (if ch \<in> set xs then indexOf xs ch else length xs + indexOf ys ch)"
  by (induction xs) auto

lemma indexOf_upt: "lo \<le> ch \<Longrightarrow> ch < hi \<Longrightarrow> indexOf [lo ..< hi] ch = ch - lo"
proof (induction "hi - lo" arbitrary: lo)
  case 0
  then show ?case by simp
next
  case (Suc n)
  then have "[lo ..< hi] = lo # [Suc lo ..< hi]" by (simp add: upt_rec)
  with Suc show ?case by (cases "lo = ch") auto
qed

lemma charValue_alphabetIndex: "inClass_AZ09 ch \<Longrightarrow> charValue ch = alphabetIndex ch"
proof -
  assume "inClass_AZ09 ch"
  then consider (letter) "65 \<le> ch" "ch < 91" | (digit) "48 \<le> ch" "ch < 58"
    by (auto simp: inClass_AZ09_def)
  then show ?thesis
  proof cases
    case letter
    then have "indexOf ALPHABET ch = ch - 65"
      unfolding ALPHABET_upt indexOf_append by (simp add: indexOf_upt del: upt_rec_numeral)
    with letter show ?thesis by (simp add: charValue_def alphabetIndex_def)
  next
    case digit
    then have "indexOf ALPHABET ch = 26 + (ch - 48)"
      unfolding ALPHABET_upt indexOf_append by (simp add: indexOf_upt del: upt_rec_numeral)
    with digit show ?thesis by (simp add: charValue_def alphabetIndex_def)
  qed
qed

lemma charValue_range: "0 \<le> charValue ch \<and> charValue ch \<le> 35"
  by (auto simp: charValue_def)

lemma charValue_inj: "inClass_AZ09 x \<Longrightarrow> inClass_AZ09 y \<Longrightarrow> charValue x = charValue y \<Longrightarrow> x = y"
  by (auto simp: charValue_def inClass_AZ09_def split: if_splits)

lemma valid_upper: "isValidCodeFormat up code \<Longrightarrow> validPattern (up code)"
  by (simp add: isValidCodeFormat_def split: if_splits)

text \<open>
  Claim C1. For every valid code (one that \<open>isValidCodeFormat\<close> accepts), the pattern is
  built from the six characters of the upper-case form, in order: a character whose
  ordinal (its index in the alphabet) is \<open>v\<close> contributes, with \<open>normalized = v / 35\<close>, the four
  bars \<open>min(1, normalized * 0.8 + 0.2)\<close>, \<open>min(1, normalized * 1.1 + 0.1)\<close>,
  \<open>min(1, normalized * 0.95 + 0.15)\<close> and \<open>min(1, normalized * 0.85 + 0.2)\<close>, and the result is
  the concatenation of the six groups.
\<close>

theorem codeToWavePattern_groups:
  assumes "isValidCodeFormat toUpperCase code"
  shows "length (toUpperCase code) = 6 \<and>
         codeToWavePattern toUpperCase code =
           concat (map (\<lambda>ch. let normalized = real_of_int (alphabetIndex ch) / 35
                              in [min 1 (normalized * 0.8 + 0.2), min 1 (normalized * 1.1 + 0.1),
                                  min 1 (normalized * 0.95 + 0.15), min 1 (normalized * 0.85 + 0.2)])
                       (toUpperCase code))"
proof -
  from assms have v: "validPattern (toUpperCase code)" by (rule valid_upper)
  then have all: "\<forall>ch \<in> set (toUpperCase code). inClass_AZ09 ch"
    by (simp add: validPattern_def list_all_iff)
  have "codeToWavePattern toUpperCase code =
          concat (map (\<lambda>ch. map (min 1) (preClamp (charValue ch))) (toUpperCase code))"
    by (simp add: codeToWavePattern_concat codeToNumericValues_def comp_def)
  also have "\<dots> = concat (map (\<lambda>ch. map (min 1) (preClamp (alphabetIndex ch))) (toUpperCase code))"
    using all by (intro arg_cong[where f=concat] map_cong) (auto simp: charValue_alphabetIndex)
  finally show ?thesis using v by (simp add: validPattern_def preClamp_def Let_def)
qed

theorem codeToWavePattern_groups_witness:
  "isValidCodeFormat toUpperCase_latin1 (str ''abc123'') \<and>
   codeToWavePattern toUpperCase_latin1 (str ''abc123'') =
     [1/5, 1/10, 3/20, 1/5,
      39/175, 23/175, 31/175, 157/700,
      43/175, 57/350, 143/700, 87/350,
      143/175, 166/175, 309/350, 599/700,
      21/25, 49/50, 91/100, 22/25,
      151/175, 1, 164/175, 633/700]"
proof -
  have h: "isValidCodeFormat toUpperCase_latin1 (str ''abc123'')"
    by (simp add: isValidCodeFormat_def CODE_LENGTH_def validPattern_def inClass_AZ09_def
        toUpperCase_latin1_def upperUnit_latin1_def str_def)
  have u: "toUpperCase_latin1 (str ''abc123'') = [65, 66, 67, 49, 50, 51]"
    by (simp add: toUpperCase_latin1_def upperUnit_latin1_def str_def)
  have a: "map alphabetIndex [65, 66, 67, 49, 50, 51] = [0, 1, 2, 27, 28, 29]"
    by (simp add: alphabetIndex_def ALPHABET_def str_def)
  from codeToWavePattern_groups [OF h]
  have "codeToWavePattern toUpperCase_latin1 (str ''abc123'') =
    concat (map (\<lambda>v. [min 1 (real_of_int v / 35 * 0.8 + 0.2), min 1 (real_of_int v / 35 * 1.1 + 0.1),
                                  min 1 (real_of_int v / 35 * 0.95 + 0.15), min 1 (real_of_int v / 35 * 0.85 + 0.2)])
       (map alphabetIndex (toUpperCase_latin1 (str ''abc123''))))"
    by (simp add: comp_def Let_def)
  then show ?thesis using h unfolding u a by simp
qed

lemma length_preClamp: "length (preClamp v) = 4"
  by (simp add: preClamp_def Let_def)

lemma length_codeToWavePattern:
  "length (codeToWavePattern toUpperCase code) = 4 * length (toUpperCase code)"
  by (simp add: codeToWavePattern_concat codeToNumericValues_def length_concat comp_def
      length_preClamp sum_list_triv)

lemma preClamp_nonneg: "0 \<le> v \<Longrightarrow> x \<in> set (preClamp v) \<Longrightarrow> 0 \<le> x"
  by (auto simp: preClamp_def Let_def)

lemma codeToWavePattern_unit_interval:
  "x \<in> set (codeToWavePattern toUpperCase code) \<Longrightarrow> 0 \<le> x \<and> x \<le> 1"
proof -
  assume "x \<in> set (codeToWavePattern toUpperCase code)"
  then obtain ch y where "y \<in> set (preClamp (charValue ch))" and x: "x = min 1 y"
    by (auto simp: codeToWavePattern_concat codeToNumericValues_def)
  then have "0 \<le> y" using preClamp_nonneg charValue_range by blast
  with x show ?thesis by simp
qed

text \<open>
  Claim C2. For every valid code, the pattern has exactly 24 elements and each of them
  lies between 0 and 1.
\<close>

theorem codeToWavePattern_length_range:
  assumes "isValidCodeFormat toUpperCase code"
  shows "length (codeToWavePattern toUpperCase code) = 24 \<and>
         (\<forall>x \<in> set (codeToWavePattern toUpperCase code). 0 \<le> x \<and> x \<le> 1)"
proof -
  from assms have "length (toUpperCase code) = 6"
    using valid_upper by (auto simp: validPattern_def)
  then show ?thesis
    using codeToWavePattern_unit_interval by (auto simp: length_codeToWavePattern)
qed

theorem codeToWavePattern_length_range_witness:
  "isValidCodeFormat toUpperCase_latin1 (str ''TEST01'') \<and>
   length (codeToWavePattern toUpperCase_latin1 (str ''TEST01'')) = 24 \<and>
   list_all (\<lambda>x. 0 \<le> x \<and> x \<le> 1) (codeToWavePattern toUpperCase_latin1 (str ''TEST01''))"
proof -
  have h: "isValidCodeFormat toUpperCase_latin1 (str ''TEST01'')"
    by (simp add: isValidCodeFormat_def CODE_LENGTH_def validPattern_def inClass_AZ09_def
        toUpperCase_latin1_def upperUnit_latin1_def str_def)
  show ?thesis using h codeToWavePattern_length_range [OF h] by (simp add: list_all_iff)
qed

text \<open>
  Claim C7, as stated, fails: bar 3 exceeds 1 before clamping as well. At the ordinal 35 (the
  character \<open>9\<close>) the four values before the clamp are 1, 1.2, 1.1 and 1.05.
\<close>

theorem preClamp_bar3_counterexample:
  "charValue 57 = 35 \<and> preClamp (charValue 57) ! 2 = 1.1 \<and> 1 < preClamp (charValue 57) ! 2"
  by (simp add: preClamp_def charValue_def Let_def)

text \<open>
  Claim C7, amended. For every ordinal from 0 to 35, bar 1 is at most 1 before clamping, and
  bars 2, 3 and 4 are at most 1.2, 1.1 and 1.05; these bounds are reached at the ordinal 35, so
  that bars 2, 3 and 4 (not bar 2 alone) can exceed 1, and the greatest value before clamping is
  1.2, that of bar 2.
\<close>

theorem preClamp_bounds:
  assumes "0 \<le> v" and "v \<le> 35"
  shows "preClamp v ! 0 \<le> 1 \<and> preClamp v ! 1 \<le> 1.2 \<and> preClamp v ! 2 \<le> 1.1 \<and>
         preClamp v ! 3 \<le> 1.05 \<and> preClamp 35 = [1, 1.2, 1.1, 1.05]"
  using assms by (simp add: preClamp_def Let_def)

theorem preClamp_bounds_witness:
  "(0::int) \<le> 34 \<and> (34::int) \<le> 35 \<and> preClamp 34 ! 0 \<le> 1 \<and> preClamp 34 ! 1 \<le> 1.2 \<and>
   preClamp 34 ! 2 \<le> 1.1 \<and> preClamp 34 ! 3 \<le> 1.05 \<and> preClamp 35 = [1, 1.2, 1.1, 1.05]"
  using preClamp_bounds [of 34] by simp

lemma bar1_unclamped: "0 \<le> v \<Longrightarrow> v \<le> 35 \<Longrightarrow> min 1 (preClamp v ! 0) = real_of_int v / 35 * 0.8 + 0.2"
  by (simp add: preClamp_def Let_def)

lemma bar1_gap:
  "0 \<le> v \<Longrightarrow> v < w \<Longrightarrow> w \<le> 35 \<Longrightarrow>
   min 1 (preClamp w ! 0) - min 1 (preClamp v ! 0) \<ge> 0.8 / 35"
proof -
  assume "0 \<le> v" and "v < w" and "w \<le> 35"
  then have "real_of_int v + 1 \<le> real_of_int w" by linarith
  then show ?thesis using \<open>0 \<le> v\<close> \<open>v < w\<close> \<open>w \<le> 35\<close>
    by (simp add: bar1_unclamped)
qed

text \<open>The order of the first bars is kept by any approximation of them that is off by at
  most one hundredth, which is far more than the rounding of double-precision arithmetic
  can add up to in one multiplication, one division and one addition.\<close>

lemma bar1_robust:
  assumes "\<forall>u. 0 \<le> u \<and> u \<le> 35 \<longrightarrow> \<bar>f u - min 1 (preClamp u ! 0)\<bar> \<le> 1 / 100"
    and "0 \<le> v" and "v < w" and "w \<le> 35"
  shows "f v < f w"
proof -
  have "\<bar>f v - min 1 (preClamp v ! 0)\<bar> \<le> 1 / 100" and "\<bar>f w - min 1 (preClamp w ! 0)\<bar> \<le> 1 / 100"
    using assms by auto
  moreover have "min 1 (preClamp w ! 0) - min 1 (preClamp v ! 0) \<ge> 0.8 / 35"
    using assms(2-4) by (rule bar1_gap)
  ultimately show ?thesis by argo
qed

lemma bar1_strict_mono:
  "0 \<le> v \<Longrightarrow> v < w \<Longrightarrow> w \<le> 35 \<Longrightarrow> min 1 (preClamp v ! 0) < min 1 (preClamp w ! 0)"
  by (simp add: bar1_unclamped)

lemma barGroup_inj:
  assumes "inClass_AZ09 x" and "inClass_AZ09 y" and "barGroup x = barGroup y"
  shows "x = y"
proof -
  have "min 1 (preClamp (charValue x) ! 0) = min 1 (preClamp (charValue y) ! 0)"
    using assms(3) by (simp add: barGroup_def preClamp_def Let_def)
  then have "charValue x = charValue y"
    using charValue_range [of x] charValue_range [of y] by (simp add: bar1_unclamped)
  with assms show ?thesis by (simp add: charValue_inj)
qed

lemma concat_barGroup_inj:
  "list_all inClass_AZ09 xs \<Longrightarrow> list_all inClass_AZ09 ys \<Longrightarrow>
   concat (map barGroup xs) = concat (map barGroup ys) \<Longrightarrow> xs = ys"
proof (induction xs arbitrary: ys)
  case Nil
  then show ?case by (cases ys) (auto simp: barGroup_def preClamp_def Let_def)
next
  case (Cons x xs)
  show ?case
  proof (cases ys)
    case Nil
    with Cons.prems show ?thesis by (auto simp: barGroup_def preClamp_def Let_def)
  next
    case (Cons y ys')
    have len: "length (barGroup x) = length (barGroup y)"
      by (simp add: barGroup_def length_preClamp)
    from Cons.prems(3) Cons have "barGroup x @ concat (map barGroup xs) = barGroup y @ concat (map barGroup ys')"
      by simp
    with len have "barGroup x = barGroup y" and "concat (map barGroup xs) = concat (map barGroup ys')"
      by simp_all
    with Cons.prems Cons Cons.IH [of ys'] show ?thesis
      by (auto dest: barGroup_inj)
  qed
qed

text \<open>
  Claim C9. Two distinct upper-case codes (strings that match the pattern and that
  \<open>toUpperCase\<close> leaves as they are) never have the same pattern: the first bar of a
  character is not changed by the clamp and is strictly increasing in the ordinal
  (\<open>bar1_unclamped\<close>, \<open>bar1_strict_mono\<close>), so a group of four bars determines its character.
  Two different ordinals differ in their first bar by \<open>0.8 / 35\<close> at least (\<open>bar1_gap\<close>), so
  the order survives an error of a hundredth in each bar (\<open>bar1_robust\<close>).
\<close>

theorem codeToWavePattern_injective:
  assumes "validPattern c1" and "validPattern c2"
    and "toUpperCase c1 = c1" and "toUpperCase c2 = c2"
    and "c1 \<noteq> c2"
  shows "codeToWavePattern toUpperCase c1 \<noteq> codeToWavePattern toUpperCase c2"
proof
  assume "codeToWavePattern toUpperCase c1 = codeToWavePattern toUpperCase c2"
  then have "concat (map barGroup c1) = concat (map barGroup c2)"
    unfolding barGroup_def using assms(3,4)
    by (simp add: codeToWavePattern_concat codeToNumericValues_def comp_def)
  with assms(1,2) have "c1 = c2"
    by (auto simp: validPattern_def intro: concat_barGroup_inj)
  with assms(5) show False by simp
qed

theorem codeToWavePattern_injective_witness:
  "validPattern (str ''ABC123'') \<and> validPattern (str ''XYZ789'') \<and>
   toUpperCase_latin1 (str ''ABC123'') = str ''ABC123'' \<and>
   toUpperCase_latin1 (str ''XYZ789'') = str ''XYZ789'' \<and>
   str ''ABC123'' \<noteq> str ''XYZ789'' \<and>
   codeToWavePattern toUpperCase_latin1 (str ''ABC123'') \<noteq>
     codeToWavePattern toUpperCase_latin1 (str ''XYZ789'')"
proof -
  have h1: "validPattern (str ''ABC123'')" and h2: "validPattern (str ''XYZ789'')"
    by (simp_all add: validPattern_def inClass_AZ09_def str_def)
  have h3: "toUpperCase_latin1 (str ''ABC123'') = str ''ABC123''"
    and h4: "toUpperCase_latin1 (str ''XYZ789'') = str ''XYZ789''"
    by (simp_all add: toUpperCase_latin1_def upperUnit_latin1_def str_def)
  have h5: "str ''ABC123'' \<noteq> str ''XYZ789''"
    by (simp add: str_def)
  show ?thesis
    using h1 h2 h3 h4 h5 codeToWavePattern_injective [OF h1 h2 h3 h4 h5] by blast
qed

text \<open>
  Claim C10, as stated, fails on its length: upper-casing can lengthen a string. The
  one-character string made of the sharp s (U+00DF) has the upper-case form \<open>SS\<close>, and its
  pattern has 8 bars, not 4.
\<close>

theorem codeToWavePattern_sharp_s_counterexample:
  "toUpperCase_latin1 [223] = str ''SS'' \<and>
   length (codeToWavePattern toUpperCase_latin1 [223]) = 8 \<and>
   length (codeToWavePattern toUpperCase_latin1 [223]) \<noteq> 4 * length [223 :: nat]"
  by (simp add: length_codeToWavePattern toUpperCase_latin1_def upperUnit_latin1_def str_def)

text \<open>
  Claim C10, amended. For every string and whatever \<open>toUpperCase\<close> returns for it, both
  functions return a value (they have no failing branch): every character of the upper-case
  form that is outside \<open>A\<close>..\<open>Z\<close> and \<open>0\<close>..\<open>9\<close> has the ordinal 0, which is the ordinal of \<open>A\<close>, the
  other characters have their index in the alphabet, and the pattern has 4 bars for each
  character of the upper-case form (so its length is 4 times the length of the upper-case
  form, not always 24).
\<close>

theorem codeToWavePattern_total:
  "codeToNumericValues toUpperCase code =
     map (\<lambda>ch. if inClass_AZ09 ch then alphabetIndex ch else 0) (toUpperCase code) \<and>
   alphabetIndex 65 = 0 \<and>
   length (codeToNumericValues toUpperCase code) = length (toUpperCase code) \<and>
   length (codeToWavePattern toUpperCase code) = 4 * length (toUpperCase code)"
proof -
  have "charValue ch = (if inClass_AZ09 ch then alphabetIndex ch else 0)" for ch
    using charValue_alphabetIndex [of ch] by (auto simp: charValue_def inClass_AZ09_def)
  then show ?thesis
    by (simp add: codeToNumericValues_def length_codeToWavePattern alphabetIndex_def ALPHABET_def str_def)
qed

lemma toUpperCase_latin1_valid: "validPattern c \<Longrightarrow> toUpperCase_latin1 c = c"
proof -
  have "list_all inClass_AZ09 s \<Longrightarrow> concat (map upperUnit_latin1 s) = s" for s
    by (induction s) (auto simp: upperUnit_latin1_def inClass_AZ09_def)
  then show "validPattern c \<Longrightarrow> toUpperCase_latin1 c = c"
    by (simp add: validPattern_def toUpperCase_latin1_def)
qed

lemma length_toUpperCase_latin1:
  "223 \<notin> set s \<Longrightarrow> length (toUpperCase_latin1 s) = length s"
  by (induction s) (auto simp: toUpperCase_latin1_def upperUnit_latin1_def)

section \<open>Merging a partial theme with the default\<close>

lemma mergeWithDefault_colorScheme:
  "type (colorScheme (mergeWithDefault (Some p))) =
     fallback (type (colorScheme DEFAULT_THEME)) (colorScheme_p p) type_p \<and>
   primary (colorScheme (mergeWithDefault (Some p))) =
     fallback (primary (colorScheme DEFAULT_THEME)) (colorScheme_p p) primary_p \<and>
   secondary (colorScheme (mergeWithDefault (Some p))) =
     fallbackOpt (secondary (colorScheme DEFAULT_THEME)) (colorScheme_p p) secondary_p \<and>
   background (colorScheme (mergeWithDefault (Some p))) =
     fallback (background (colorScheme DEFAULT_THEME)) (colorScheme_p p) background_p \<and>
   gradientAngle (colorScheme (mergeWithDefault (Some p))) =
     fallbackOpt (gradientAngle (colorScheme DEFAULT_THEME)) (colorScheme_p p) gradientAngle_p"
  by (simp add: mergeWithDefault_def spreadColorScheme_def spread_def spreadOpt_def
      fallback_def fallbackOpt_def split: option.splits)

lemma mergeWithDefault_barStyle:
  "shape (barStyle (mergeWithDefault (Some p))) =
     fallback (shape (barStyle DEFAULT_THEME)) (barStyle_p p) shape_p \<and>
   thickness (barStyle (mergeWithDefault (Some p))) =
     fallback (thickness (barStyle DEFAULT_THEME)) (barStyle_p p) thickness_p \<and>
   spacing (barStyle (mergeWithDefault (Some p))) =
     fallback (spacing (barStyle DEFAULT_THEME)) (barStyle_p p) spacing_p \<and>
   roundness (barStyle (mergeWithDefault (Some p))) =
     fallbackOpt (roundness (barStyle DEFAULT_THEME)) (barStyle_p p) roundness_p"
  by (simp add: mergeWithDefault_def spreadBarStyle_def spread_def spreadOpt_def
      fallback_def fallbackOpt_def split: option.splits)

lemma mergeWithDefault_effects:
  "shadow (effects (mergeWithDefault (Some p))) =
     fallback (shadow (effects DEFAULT_THEME)) (effects_p p) shadow_p \<and>
   shadowColor (effects (mergeWithDefault (Some p))) =
     fallbackOpt (shadowColor (effects DEFAULT_THEME)) (effects_p p) shadowColor_p \<and>
   shadowBlur (effects (mergeWithDefault (Some p))) =
     fallbackOpt (shadowBlur (effects DEFAULT_THEME)) (effects_p p) shadowBlur_p \<and>
   opacity (effects (mergeWithDefault (Some p))) =
     fallback (opacity (effects DEFAULT_THEME)) (effects_p p) opacity_p"
  by (simp add: mergeWithDefault_def spreadEffects_def spread_def spreadOpt_def
      fallback_def fallbackOpt_def split: option.splits)

lemma mergeWithDefault_dimensions:
  "width (dimensions (mergeWithDefault (Some p))) =
     fallback (width (dimensions DEFAULT_THEME)) (dimensions_p p) width_p \<and>
   height (dimensions (mergeWithDefault (Some p))) =
     fallback (height (dimensions DEFAULT_THEME)) (dimensions_p p) height_p \<and>
   dpi (dimensions (mergeWithDefault (Some p))) =
     fallback (dpi (dimensions DEFAULT_THEME)) (dimensions_p p) dpi_p"
  by (simp add: mergeWithDefault_def spreadDimensions_def spread_def
      fallback_def split: option.splits)

lemma mergeWithDefault_onlyPrimary:
  "mergeWithDefault (Some (onlyPrimary c)) =
     DEFAULT_THEME\<lparr>colorScheme := (colorScheme DEFAULT_THEME)\<lparr>primary := c\<rparr>\<rparr>"
  by (simp add: mergeWithDefault_def onlyPrimary_def noSections_def DEFAULT_THEME_def
      spreadColorScheme_def spreadBarStyle_def spreadEffects_def spreadDimensions_def
      spread_def spreadOpt_def)

text \<open>
  Claim C4. \<open>mergeWithDefault(null)\<close> is the default theme. For a partial theme that has
  only \<open>colorScheme.primary\<close>, the result has that primary colour, every other field of its
  colour scheme is the default's, and its bar style, effects and dimensions are the default's.
  For every partial theme the merge is made section by section and field by field: each of
  the fifteen fields is the partial theme's when present and the default's otherwise.
\<close>

theorem mergeWithDefault_nested:
  "mergeWithDefault None = DEFAULT_THEME \<and>
   primary (colorScheme (mergeWithDefault (Some (onlyPrimary c)))) = c \<and>
   type (colorScheme (mergeWithDefault (Some (onlyPrimary c)))) = type (colorScheme DEFAULT_THEME) \<and>
   secondary (colorScheme (mergeWithDefault (Some (onlyPrimary c)))) = secondary (colorScheme DEFAULT_THEME) \<and>
   background (colorScheme (mergeWithDefault (Some (onlyPrimary c)))) = background (colorScheme DEFAULT_THEME) \<and>
   gradientAngle (colorScheme (mergeWithDefault (Some (onlyPrimary c)))) = gradientAngle (colorScheme DEFAULT_THEME) \<and>
   barStyle (mergeWithDefault (Some (onlyPrimary c))) = barStyle DEFAULT_THEME \<and>
   effects (mergeWithDefault (Some (onlyPrimary c))) = effects DEFAULT_THEME \<and>
   dimensions (mergeWithDefault (Some (onlyPrimary c))) = dimensions DEFAULT_THEME \<and>
   type (colorScheme (mergeWithDefault (Some p))) =
     fallback (type (colorScheme DEFAULT_THEME)) (colorScheme_p p) type_p \<and>
   primary (colorScheme (mergeWithDefault (Some p))) =
     fallback (primary (colorScheme DEFAULT_THEME)) (colorScheme_p p) primary_p \<and>
   secondary (colorScheme (mergeWithDefault (Some p))) =
     fallbackOpt (secondary (colorScheme DEFAULT_THEME)) (colorScheme_p p) secondary_p \<and>
   background (colorScheme (mergeWithDefault (Some p))) =
     fallback (background (colorScheme DEFAULT_THEME)) (colorScheme_p p) background_p \<and>
   gradientAngle (colorScheme (mergeWithDefault (Some p))) =
     fallbackOpt (gradientAngle (colorScheme DEFAULT_THEME)) (colorScheme_p p) gradientAngle_p \<and>
   shape (barStyle (mergeWithDefault (Some p))) =
     fallback (shape (barStyle DEFAULT_THEME)) (barStyle_p p) shape_p \<and>
   thickness (barStyle (mergeWithDefault (Some p))) =
     fallback (thickness (barStyle DEFAULT_THEME)) (barStyle_p p) thickness_p \<and>
   spacing (barStyle (mergeWithDefault (Some p))) =
     fallback (spacing (barStyle DEFAULT_THEME)) (barStyle_p p) spacing_p \<and>
   roundness (barStyle (mergeWithDefault (Some p))) =
     fallbackOpt (roundness (barStyle DEFAULT_THEME)) (barStyle_p p) roundness_p \<and>
   shadow (effects (mergeWithDefault (Some p))) =
     fallback (shadow (effects DEFAULT_THEME)) (effects_p p) shadow_p \<and>
   shadowColor (effects (mergeWithDefault (Some p))) =
     fallbackOpt (shadowColor (effects DEFAULT_THEME)) (effects_p p) shadowColor_p \<and>
   shadowBlur (effects (mergeWithDefault (Some p))) =
     fallbackOpt (shadowBlur (effects DEFAULT_THEME)) (effects_p p) shadowBlur_p \<and>
   opacity (effects (mergeWithDefault (Some p))) =
     fallback (opacity (effects DEFAULT_THEME)) (effects_p p) opacity_p \<and>
   width (dimensions (mergeWithDefault (Some p))) =
     fallback (width (dimensions DEFAULT_THEME)) (dimensions_p p) width_p \<and>
   height (dimensions (mergeWithDefault (Some p))) =
     fallback (height (dimensions DEFAULT_THEME)) (dimensions_p p) height_p \<and>
   dpi (dimensions (mergeWithDefault (Some p))) =
     fallback (dpi (dimensions DEFAULT_THEME)) (dimensions_p p) dpi_p"
proof -
  have null: "mergeWithDefault None = DEFAULT_THEME"
    by (simp add: mergeWithDefault_def)
  have only: "primary (colorScheme (mergeWithDefault (Some (onlyPrimary c)))) = c \<and>
   type (colorScheme (mergeWithDefault (Some (onlyPrimary c)))) = type (colorScheme DEFAULT_THEME) \<and>
   secondary (colorScheme (mergeWithDefault (Some (onlyPrimary c)))) = secondary (colorScheme DEFAULT_THEME) \<and>
   background (colorScheme (mergeWithDefault (Some (onlyPrimary c)))) = background (colorScheme DEFAULT_THEME) \<and>
   gradientAngle (colorScheme (mergeWithDefault (Some (onlyPrimary c)))) = gradientAngle (colorScheme DEFAULT_THEME) \<and>
   barStyle (mergeWithDefault (Some (onlyPrimary c))) = barStyle DEFAULT_THEME \<and>
   effects (mergeWithDefault (Some (onlyPrimary c))) = effects DEFAULT_THEME \<and>
   dimensions (mergeWithDefault (Some (onlyPrimary c))) = dimensions DEFAULT_THEME"
    by (simp add: mergeWithDefault_onlyPrimary)
  show ?thesis
    using null only mergeWithDefault_colorScheme [of p] mergeWithDefault_barStyle [of p]
      mergeWithDefault_effects [of p] mergeWithDefault_dimensions [of p]
    by blast
qed

lemma mergeWithDefault_test:
  "primary (colorScheme (mergeWithDefault (Some (onlyPrimary (str ''#FF0000''))))) = str ''#FF0000'' \<and>
   background (colorScheme (mergeWithDefault (Some (onlyPrimary (str ''#FF0000''))))) = str ''#FFFFFF'' \<and>
   barStyle (mergeWithDefault (Some (onlyPrimary (str ''#FF0000'')))) = barStyle DEFAULT_THEME"
  by (simp add: mergeWithDefault_onlyPrimary DEFAULT_THEME_def)

section \<open>Theme validation\<close>

text \<open>
  Claim C5. For every theme, the warnings of \<open>validateTheme\<close>, read as pairs of a type and a
  severity, are exactly those of the violated thresholds, all of them and in the order of the
  five tests: contrast when the ratio is below 4.5 (an error below 3, a warning otherwise),
  thickness below 2, opacity below 70 and width below 5 as warnings, dpi below 300 as an error.
\<close>

theorem validateTheme_warnings:
  "map (\<lambda>w. (wtype w, severity w)) (validateTheme toFixed theme) =
     (if getContrastRatio (primary (colorScheme theme)) (background (colorScheme theme)) < 4.5
      then [(Contrast,
             if getContrastRatio (primary (colorScheme theme)) (background (colorScheme theme)) < 3
             then Error else Warning)]
      else []) @
     (if thickness (barStyle theme) < 2 then [(Thickness, Warning)] else []) @
     (if opacity (effects theme) < 70 then [(Opacity, Warning)] else []) @
     (if width (dimensions theme) < 5 then [(Size, Warning)] else []) @
     (if dpi (dimensions theme) < 300 then [(Dpi, Error)] else [])"
  by (simp add: validateTheme_def Let_def)

lemma hexToRgb_black: "hexToRgb (str ''#000000'') = Some \<lparr>r = 0, g = 0, b = 0\<rparr>"
  by (simp add: hexToRgb_def str_def hexDigit_def parseInt16_def)

lemma hexToRgb_white: "hexToRgb (str ''#FFFFFF'') = Some \<lparr>r = 255, g = 255, b = 255\<rparr>"
  by (simp add: hexToRgb_def str_def hexDigit_def parseInt16_def)

lemma getLuminance_black: "getLuminance (str ''#000000'') = 0"
  by (simp add: getLuminance_def hexToRgb_black channel_def)

lemma getLuminance_white: "getLuminance (str ''#FFFFFF'') = 1"
  by (simp add: getLuminance_def hexToRgb_white channel_def)

lemma getContrastRatio_black_white: "getContrastRatio (str ''#000000'') (str ''#FFFFFF'') = 21"
  by (simp add: getContrastRatio_def getLuminance_black getLuminance_white Let_def)

lemma getContrastRatio_same: "getContrastRatio c c = 1"
proof -
  have "0 \<le> channel v" for v by (simp add: channel_def Let_def)
  then have "0 \<le> getLuminance c"
    by (auto simp: getLuminance_def split: option.splits intro!: add_nonneg_nonneg)
  then show ?thesis by (simp add: getContrastRatio_def Let_def)
qed

lemma validateTheme_default: "validateTheme toFixed DEFAULT_THEME = []"
  by (simp add: validateTheme_def Let_def DEFAULT_THEME_def getContrastRatio_black_white)

lemma validateTheme_low_dpi:
  "map (\<lambda>w. (wtype w, severity w)) (validateTheme toFixed (withDpi 72 DEFAULT_THEME)) = [(Dpi, Error)]"
  by (simp add: validateTheme_def Let_def DEFAULT_THEME_def withDpi_def getContrastRatio_black_white)

lemma validateTheme_thin:
  "map (\<lambda>w. (wtype w, severity w)) (validateTheme toFixed (withThickness 1 DEFAULT_THEME)) = [(Thickness, Warning)]"
  by (simp add: validateTheme_def Let_def DEFAULT_THEME_def withThickness_def getContrastRatio_black_white)

section \<open>Bar dimensions\<close>

text \<open>Properties of the rounding to doubles: the exponent found by \<open>binade\<close>, the exact
  doubling, and the relative error of one operation, which is \<open>2^-53\<close> at most.\<close>

lemma binade_bounds:
  assumes "0 < x"
  shows "2 powi binade x \<le> x \<and> x < 2 powi (binade x + 1)"
proof (cases "1 \<le> x")
  case True
  define n where "n = \<lfloor>x\<rfloor>"
  have n: "0 < n" using True by (simp add: n_def)
  have k: "1 \<le> bitlen n" using n by (simp add: bitlen_alt_def)
  from bitlen_bounds [OF n] have lo: "2 ^ nat (bitlen n - 1) \<le> n" and hi: "n < 2 ^ nat (bitlen n)"
    by auto
  have "real_of_int (2 ^ nat (bitlen n - 1)) \<le> of_int n" using lo by linarith
  also have "\<dots> \<le> x" by (simp add: n_def)
  finally have l: "2 powi (bitlen n - 1) \<le> x" using k by (simp add: power_int_def)
  from hi have "n + 1 \<le> 2 ^ nat (bitlen n)" by simp
  then have "real_of_int (n + 1) \<le> real_of_int (2 ^ nat (bitlen n))" by linarith
  moreover have "x < real_of_int (n + 1)" by (simp add: n_def)
  ultimately have "x < 2 powi (bitlen n)" using k by (simp add: power_int_def)
  with l True show ?thesis by (simp add: binade_def n_def)
next
  case False
  define m where "m = \<lceil>1 / x\<rceil>"
  have y: "1 < 1 / x" using False assms by simp
  then have m: "0 < m - 1" unfolding m_def by linarith
  define k where "k = bitlen (m - 1)"
  have k: "1 \<le> k" using m by (simp add: k_def bitlen_alt_def)
  from bitlen_bounds [OF m] have lo: "2 ^ nat (k - 1) \<le> m - 1" and hi: "m - 1 < 2 ^ nat k"
    by (auto simp: k_def)
  have b: "binade x = - k" using False by (simp add: binade_def k_def m_def)
  from hi have "m \<le> 2 ^ nat k" by simp
  then have "real_of_int m \<le> 2 ^ nat k" by (metis of_int_le_iff of_int_numeral of_int_power)
  moreover have "1 / x \<le> real_of_int m" by (simp add: m_def)
  ultimately have "1 / x \<le> 2 ^ nat k" by linarith
  then have "1 / 2 ^ nat k \<le> x" using assms
    by (metis divide_le_eq mult.commute zero_less_numeral zero_less_power)
  then have l: "2 powi (- k) \<le> x" using k by (simp add: power_int_def field_simps)
  from lo have "real_of_int (2 ^ nat (k - 1)) \<le> real_of_int (m - 1)" by linarith
  moreover have "real_of_int (m - 1) < 1 / x" unfolding m_def by linarith
  ultimately have "2 ^ nat (k - 1) < 1 / x" by simp
  then have "x < 1 / 2 ^ nat (k - 1)" using assms
    by (simp add: field_simps)
  moreover have "2 powi (- k + 1) = (1 :: real) / 2 ^ nat (k - 1)"
    using k by (simp add: power_int_def field_simps nat_diff_distrib)
  ultimately show ?thesis using l b by simp
qed

lemma binade_floor_log:
  assumes "0 < x"
  shows "binade x = \<lfloor>log 2 x\<rfloor>"
proof -
  have p: "(2 :: real) powr real_of_int i = 2 powi i" for i
    by (simp add: powr_real_of_int' power_int_def)
  from binade_bounds [OF assms]
  have "2 powr real_of_int (binade x) \<le> x \<and> x < 2 powr real_of_int (binade x + 1)"
    by (simp only: p)
  then have "2 powr real_of_int (binade x) \<le> x \<and> x < 2 powr (real_of_int (binade x) + 1)"
    by simp
  then have "\<lfloor>log 2 x\<rfloor> = binade x"
    using assms floor_log_eq_powr_iff [of x 2 "binade x"] by simp
  then show ?thesis by simp
qed

lemma binade_double: "0 < x \<Longrightarrow> binade (2 * x) = binade x + 1"
  by (simp add: binade_floor_log log_mult)

lemma toDouble_double: "toDouble (2 * x) = 2 * toDouble x"
proof (cases "x = 0")
  case True
  then show ?thesis by (simp add: toDouble_def)
next
  case False
  define e where "e = binade \<bar>x\<bar> - 52"
  have b: "binade \<bar>2 * x\<bar> - 52 = e + 1"
    using False binade_double [of "\<bar>x\<bar>"] by (simp add: abs_mult e_def)
  have p: "(2 :: real) powi (e + 1) = 2 * 2 powi e"
    by (simp add: power_int_add)
  have "toDouble (2 * x) = sgn x * of_int (roundEven (\<bar>2 * x\<bar> / 2 powi (e + 1))) * 2 powi (e + 1)"
    using False by (simp add: toDouble_def Let_def b sgn_mult)
  also have "\<bar>2 * x\<bar> / 2 powi (e + 1) = \<bar>x\<bar> / 2 powi e"
    by (simp add: p abs_mult)
  finally have "toDouble (2 * x) = 2 * (sgn x * of_int (roundEven (\<bar>x\<bar> / 2 powi e)) * 2 powi e)"
    by (simp add: p)
  then show ?thesis using False by (simp add: toDouble_def Let_def e_def)
qed


lemma roundEven_near: "\<bar>real_of_int (roundEven x) - x\<bar> \<le> 1 / 2"
  unfolding roundEven_def Let_def by (auto; linarith)

lemma toDouble_error:
  assumes "0 < x"
  shows "\<bar>toDouble x - x\<bar> \<le> x / 2 ^ 53"
proof -
  define e where "e = binade x - 52"
  define s :: real where "s = 2 powi e"
  have s: "0 < s" by (simp add: s_def)
  have td: "toDouble x = of_int (roundEven (x / s)) * s"
    using assms by (simp add: toDouble_def Let_def e_def s_def)
  have "\<bar>toDouble x - x\<bar> = \<bar>of_int (roundEven (x / s)) - x / s\<bar> * s"
  proof -
    have "toDouble x - x = (of_int (roundEven (x / s)) - x / s) * s"
      using s by (simp add: td field_simps)
    then show ?thesis using s by (simp add: abs_mult)
  qed
  also have "\<dots> \<le> 1 / 2 * s"
    using roundEven_near [of "x / s"] s by (intro mult_right_mono) auto
  also have "1 / 2 * s = 2 powi binade x / 2 ^ 53"
  proof -
    have "(2 :: real) powi binade x = 2 powi (e + 52)" by (simp add: e_def)
    also have "\<dots> = s * 2 ^ 52" by (simp add: power_int_add s_def)
    finally show ?thesis by simp
  qed
  also have "\<dots> \<le> x / 2 ^ 53"
    using binade_bounds [OF assms] by (simp add: divide_right_mono)
  finally show ?thesis .
qed

lemma toDouble_between:
  assumes "0 < lo" and "lo \<le> x" and "x \<le> hi"
  shows "lo * (1 - 1 / 2 ^ 53) \<le> toDouble x \<and> toDouble x \<le> hi * (1 + 1 / 2 ^ 53)"
proof -
  have x: "0 < x" using assms by linarith
  from toDouble_error [OF x] have "x - x / 2 ^ 53 \<le> toDouble x" and "toDouble x \<le> x + x / 2 ^ 53"
    by linarith+
  moreover have "lo * (1 - 1 / 2 ^ 53) \<le> x * (1 - 1 / 2 ^ 53)"
    using assms by (intro mult_right_mono) auto
  moreover have "x * (1 + 1 / 2 ^ 53) \<le> hi * (1 + 1 / 2 ^ 53)"
    using assms by (intro mult_right_mono) auto
  ultimately show ?thesis by (simp add: algebra_simps)
qed

lemma toDouble_product_between:
  assumes "0 < lo" and "lo \<le> x * y" and "x * y \<le> hi"
  shows "lo * (1 - 1 / 2 ^ 53) \<le> dmul x y \<and> dmul x y \<le> hi * (1 + 1 / 2 ^ 53)"
  unfolding dmul_def using assms by (rule toDouble_between)

lemma scaled_product_between:
  assumes "0 < c" and "0 < t" and "0 < k" and "0 < d"
  shows "c * (t / k) * (d / 300) * (1 - 1 / 2 ^ 53) ^ 4 \<le> dmul (dmul c (ddiv t k)) (ddiv d 300) \<and>
         dmul (dmul c (ddiv t k)) (ddiv d 300) \<le> c * (t / k) * (d / 300) * (1 + 1 / 2 ^ 53) ^ 4"
proof -
  define m :: real where "m = 1 - 1 / 2 ^ 53"
  define p :: real where "p = 1 + 1 / 2 ^ 53"
  define x1 where "x1 = t / k"
  define x2 where "x2 = d / 300"
  define A where "A = ddiv t k"
  define B where "B = dmul c A"
  define C where "C = ddiv d 300"
  have m: "0 < m" and p: "0 < p" by (simp_all add: m_def p_def)
  have x1: "0 < x1" and x2: "0 < x2" using assms by (simp_all add: x1_def x2_def)
  have a: "x1 * m \<le> A \<and> A \<le> x1 * p"
    unfolding A_def ddiv_def m_def p_def x1_def [symmetric] using x1 by (intro toDouble_between) auto
  have a0: "0 < x1 * m" using x1 m by (rule mult_pos_pos)
  have ca0: "0 < c * (x1 * m)" using assms(1) a0 by (rule mult_pos_pos)
  have "c * (x1 * m) \<le> c * A" using a assms(1) by (intro mult_left_mono) auto
  moreover have "c * A \<le> c * (x1 * p)" using a assms(1) by (intro mult_left_mono) auto
  ultimately have b: "c * (x1 * m) * m \<le> B \<and> B \<le> c * (x1 * p) * p"
    unfolding B_def m_def p_def using ca0 [unfolded m_def] by (intro toDouble_product_between) auto
  have b0: "0 < c * (x1 * m) * m" using ca0 m by (rule mult_pos_pos)
  have cc: "x2 * m \<le> C \<and> C \<le> x2 * p"
    unfolding C_def ddiv_def m_def p_def x2_def [symmetric] using x2 by (intro toDouble_between) auto
  have c0: "0 < x2 * m" using x2 m by (rule mult_pos_pos)
  have lo: "c * (x1 * m) * m * (x2 * m) \<le> B * C"
    using b cc b0 c0 by (intro mult_mono) auto
  have hi: "B * C \<le> c * (x1 * p) * p * (x2 * p)"
    using b cc b0 c0 by (intro mult_mono) auto
  have pos: "0 < c * (x1 * m) * m * (x2 * m)" using b0 c0 by (rule mult_pos_pos)
  have "c * (x1 * m) * m * (x2 * m) * m \<le> dmul B C \<and> dmul B C \<le> c * (x1 * p) * p * (x2 * p) * p"
    unfolding m_def p_def using pos [unfolded m_def] lo [unfolded m_def] hi [unfolded p_def]
    by (intro toDouble_product_between) auto
  moreover have "c * (x1 * m) * m * (x2 * m) * m = c * x1 * x2 * m ^ 4"
    by (simp add: power4_eq_xxxx)
  moreover have "c * (x1 * p) * p * (x2 * p) * p = c * x1 * x2 * p ^ 4"
    by (simp add: power4_eq_xxxx)
  ultimately show ?thesis
    unfolding B_def A_def C_def x1_def x2_def m_def p_def by simp
qed

lemma small_power4:
  fixes u :: real
  assumes "0 \<le> u" and "u \<le> 1 / 10"
  shows "1 - 5 * u \<le> (1 - u) ^ 4" and "(1 + u) ^ 4 \<le> 1 + 5 * u"
proof -
  have "u * u \<le> u * (1 / 10)" using assms(2) assms(1) by (rule mult_left_mono)
  then have uu: "u * u \<le> u / 10" by simp
  have "(1 + u) ^ 2 = 1 + 2 * u + u * u" by (simp add: power2_eq_square algebra_simps)
  then have sq: "(1 + u) ^ 2 \<le> 1 + 21 / 10 * u" using uu by linarith
  have "(1 + u) ^ 4 = ((1 + u) ^ 2) ^ 2" by simp
  also have "\<dots> \<le> (1 + 21 / 10 * u) ^ 2"
    using sq assms by (intro power_mono) auto
  also have "\<dots> = 1 + 42 / 10 * u + 441 / 100 * (u * u)"
    by (simp add: power2_eq_square algebra_simps)
  also have "\<dots> \<le> 1 + 5 * u" using uu assms(1) by linarith
  finally show "(1 + u) ^ 4 \<le> 1 + 5 * u" .
  have "1 + real 4 * (- u) \<le> (1 + (- u)) ^ 4"
    using assms by (intro Bernoulli_inequality) simp
  then show "1 - 5 * u \<le> (1 - u) ^ 4" using assms by simp
qed

lemma scaled_product_error:
  assumes "0 < c" and "0 < t" and "0 < k" and "0 < d" and "c * (t / k) * (d / 300) \<le> 32"
  shows "\<bar>dmul (dmul c (ddiv t k)) (ddiv d 300) - c * (t / k) * (d / 300)\<bar> \<le> 2 / 10 ^ 14"
proof -
  define E where "E = c * (t / k) * (d / 300)"
  define W where "W = dmul (dmul c (ddiv t k)) (ddiv d 300)"
  define u :: real where "u = 1 / 2 ^ 53"
  have E: "0 \<le> E" "E \<le> 32" using assms by (simp_all add: E_def)
  have u: "0 \<le> u" "u \<le> 1 / 10" by (simp_all add: u_def)
  from scaled_product_between [OF assms(1-4)]
  have w: "E * (1 - u) ^ 4 \<le> W" "W \<le> E * (1 + u) ^ 4"
    by (simp_all add: E_def W_def u_def)
  have "E * (1 - 5 * u) \<le> E * (1 - u) ^ 4"
    using E(1) small_power4(1) [OF u] by (intro mult_left_mono) auto
  then have "E * (1 - 5 * u) \<le> W" using w(1) by (rule order_trans)
  then have lo: "E - 5 * (E * u) \<le> W" by (simp add: algebra_simps)
  have "E * (1 + u) ^ 4 \<le> E * (1 + 5 * u)"
    using E(1) small_power4(2) [OF u] by (intro mult_left_mono) auto
  with w(2) have "W \<le> E * (1 + 5 * u)" by (rule order_trans)
  then have hi: "W \<le> E + 5 * (E * u)" by (simp add: algebra_simps)
  from lo hi have "\<bar>W - E\<bar> \<le> 5 * (E * u)" by linarith
  also have "E * u \<le> 32 * u" using E(2) u(1) by (rule mult_right_mono)
  then have "5 * (E * u) \<le> 5 * (32 * u)" by linarith
  also have "\<dots> \<le> 2 / 10 ^ 14" by (simp add: u_def)
  finally show ?thesis by (simp add: E_def W_def)
qed

lemma ddiv_double: "ddiv (2 * x) y = 2 * ddiv x y"
  using toDouble_double [of "x / y"] by (simp add: ddiv_def)

lemma dmul_double_left: "dmul (2 * x) y = 2 * dmul x y"
  using toDouble_double [of "x * y"] by (simp add: dmul_def mult.assoc)

lemma dmul_double_right: "dmul x (2 * y) = 2 * dmul x y"
  using toDouble_double [of "x * y"] by (simp add: dmul_def mult.left_commute)

lemma round_double: "\<bar>round (2 * x) - 2 * round (x :: real)\<bar> \<le> 1"
  unfolding round_def by linarith

text \<open>Two themes within the schema at which the exact product is 3.5 and the product of
  doubles is just below: the code, and the model, give 3 pixels.\<close>

lemma baseBarWidth_tie:
  "baseBarWidth (withDpi 875 (withThickness 1.5 DEFAULT_THEME)) = 3 \<and>
   4 * ((1.5 :: real) / 5) * (875 / 300) = 3.5"
  by (simp add: baseBarWidth_def barWidthScale_def withThickness_def withDpi_def DEFAULT_THEME_def)
    code_simp

lemma baseBarGap_tie:
  "baseBarGap (withDpi 360 (withSpacing 4.375 DEFAULT_THEME)) = 3 \<and>
   2 * ((4.375 :: real) / 3) * (360 / 300) = 3.5"
  by (simp add: baseBarGap_def spacingScale_def withSpacing_def withDpi_def DEFAULT_THEME_def)
    code_simp

text \<open>
  Claim C6, as stated, fails: with the default dpi of 300, the thicknesses 1 and 2 both give a
  bar width of 2 pixels.
\<close>

theorem baseBarWidth_not_doubled_counterexample:
  "baseBarWidth (withThickness 1 DEFAULT_THEME) = 2 \<and>
   baseBarWidth (withThickness 2 DEFAULT_THEME) = 2 \<and>
   baseBarWidth (withThickness 2 DEFAULT_THEME) \<noteq> 2 * baseBarWidth (withThickness 1 DEFAULT_THEME)"
  by (simp add: baseBarWidth_def barWidthScale_def withThickness_def DEFAULT_THEME_def)
    code_simp

text \<open>
  Claim C6, amended. For every theme within the ranges of the theme schema (thickness from
  1 to 10, spacing from 1 to 5, dpi from 72 to 1200), the bar width is \<open>max(2, round(w))\<close> and
  the gap \<open>max(1, round(g))\<close>, where \<open>w\<close> and \<open>g\<close> are the values that double-precision
  arithmetic gives for \<open>4 * (thickness / 5) * (dpi / 300)\<close> and
  \<open>2 * (spacing / 3) * (dpi / 300)\<close>; they differ from the exact products by \<open>2 / 10^14\<close> at
  most. The values \<open>w\<close> and \<open>g\<close> scale linearly: doubling the thickness doubles \<open>w\<close>, doubling
  the spacing doubles \<open>g\<close>, doubling the dpi doubles both, exactly. The pixel values are
  rounded and have the floors 2 and 1, so after doubling they are within one pixel of twice
  the former value, provided that the former rounded value was not below its floor.
\<close>

theorem bar_dimensions_rounded:
  assumes "1 \<le> thickness (barStyle theme)" and "thickness (barStyle theme) \<le> 10"
    and "1 \<le> spacing (barStyle theme)" and "spacing (barStyle theme) \<le> 5"
    and "72 \<le> dpi (dimensions theme)" and "dpi (dimensions theme) \<le> 1200"
  shows
  "baseBarWidth theme = max 2 (round (unroundedBarWidth theme)) \<and>
   baseBarGap theme = max 1 (round (unroundedBarGap theme)) \<and>
   \<bar>unroundedBarWidth theme -
      4 * (thickness (barStyle theme) / 5) * (dpi (dimensions theme) / 300)\<bar> \<le> 2 / 10 ^ 14 \<and>
   \<bar>unroundedBarGap theme -
      2 * (spacing (barStyle theme) / 3) * (dpi (dimensions theme) / 300)\<bar> \<le> 2 / 10 ^ 14 \<and>
   unroundedBarWidth (withThickness (2 * thickness (barStyle theme)) theme) = 2 * unroundedBarWidth theme \<and>
   unroundedBarWidth (withDpi (2 * dpi (dimensions theme)) theme) = 2 * unroundedBarWidth theme \<and>
   unroundedBarGap (withSpacing (2 * spacing (barStyle theme)) theme) = 2 * unroundedBarGap theme \<and>
   unroundedBarGap (withDpi (2 * dpi (dimensions theme)) theme) = 2 * unroundedBarGap theme \<and>
   (2 \<le> round (unroundedBarWidth theme) \<longrightarrow>
      \<bar>baseBarWidth (withThickness (2 * thickness (barStyle theme)) theme) - 2 * baseBarWidth theme\<bar> \<le> 1 \<and>
      \<bar>baseBarWidth (withDpi (2 * dpi (dimensions theme)) theme) - 2 * baseBarWidth theme\<bar> \<le> 1) \<and>
   (1 \<le> round (unroundedBarGap theme) \<longrightarrow>
      \<bar>baseBarGap (withSpacing (2 * spacing (barStyle theme)) theme) - 2 * baseBarGap theme\<bar> \<le> 1 \<and>
      \<bar>baseBarGap (withDpi (2 * dpi (dimensions theme)) theme) - 2 * baseBarGap theme\<bar> \<le> 1)"
proof -
  define t where "t = thickness (barStyle theme)"
  define s where "s = spacing (barStyle theme)"
  define d where "d = dpi (dimensions theme)"
  have w: "baseBarWidth th = max 2 (round (unroundedBarWidth th))" for th
    by (simp add: baseBarWidth_def unroundedBarWidth_def)
  have g: "baseBarGap th = max 1 (round (unroundedBarGap th))" for th
    by (simp add: baseBarGap_def unroundedBarGap_def)
  have uw: "unroundedBarWidth theme = dmul (dmul 4 (ddiv t 5)) (ddiv d 300)"
    by (simp add: unroundedBarWidth_def barWidthScale_def t_def d_def)
  have ug: "unroundedBarGap theme = dmul (dmul 2 (ddiv s 3)) (ddiv d 300)"
    by (simp add: unroundedBarGap_def spacingScale_def s_def d_def)
  have d4: "0 \<le> d / 300" "d / 300 \<le> 4" using assms(5,6) by (simp_all add: d_def)
  have "t / 5 * (d / 300) \<le> 2 * 4"
    using assms(1,2) d4 by (intro mult_mono) (simp_all add: t_def)
  moreover have "4 * (t / 5) * (d / 300) = 4 * (t / 5 * (d / 300))" by (simp only: mult.assoc)
  ultimately have ew: "4 * (t / 5) * (d / 300) \<le> 32" by linarith
  have "s / 3 * (d / 300) \<le> 2 * 4"
    using assms(3,4) d4 by (intro mult_mono) (simp_all add: s_def)
  moreover have "2 * (s / 3) * (d / 300) = 2 * (s / 3 * (d / 300))" by (simp only: mult.assoc)
  ultimately have eg: "2 * (s / 3) * (d / 300) \<le> 32" by linarith
  have c1: "\<bar>unroundedBarWidth theme - 4 * (t / 5) * (d / 300)\<bar> \<le> 2 / 10 ^ 14"
    unfolding uw using assms(1,5) ew by (intro scaled_product_error) (simp_all add: t_def d_def)
  have c2: "\<bar>unroundedBarGap theme - 2 * (s / 3) * (d / 300)\<bar> \<le> 2 / 10 ^ 14"
    unfolding ug using assms(3,5) eg by (intro scaled_product_error) (simp_all add: s_def d_def)
  have wt: "unroundedBarWidth (withThickness (2 * thickness (barStyle theme)) theme) = 2 * unroundedBarWidth theme"
    by (simp add: unroundedBarWidth_def barWidthScale_def withThickness_def ddiv_double
        dmul_double_left dmul_double_right)
  have wd: "unroundedBarWidth (withDpi (2 * dpi (dimensions theme)) theme) = 2 * unroundedBarWidth theme"
    by (simp add: unroundedBarWidth_def barWidthScale_def withDpi_def ddiv_double dmul_double_right)
  have gs: "unroundedBarGap (withSpacing (2 * spacing (barStyle theme)) theme) = 2 * unroundedBarGap theme"
    by (simp add: unroundedBarGap_def spacingScale_def withSpacing_def ddiv_double
        dmul_double_left dmul_double_right)
  have gd: "unroundedBarGap (withDpi (2 * dpi (dimensions theme)) theme) = 2 * unroundedBarGap theme"
    by (simp add: unroundedBarGap_def spacingScale_def withDpi_def ddiv_double dmul_double_right)
  have rw: "\<bar>round (2 * unroundedBarWidth theme) - 2 * round (unroundedBarWidth theme)\<bar> \<le> 1"
    by (rule round_double)
  have rg: "\<bar>round (2 * unroundedBarGap theme) - 2 * round (unroundedBarGap theme)\<bar> \<le> 1"
    by (rule round_double)
  have c3: "2 \<le> round (unroundedBarWidth theme) \<longrightarrow>
      \<bar>baseBarWidth (withThickness (2 * thickness (barStyle theme)) theme) - 2 * baseBarWidth theme\<bar> \<le> 1 \<and>
      \<bar>baseBarWidth (withDpi (2 * dpi (dimensions theme)) theme) - 2 * baseBarWidth theme\<bar> \<le> 1"
    using rw unfolding w wt wd by linarith
  have c4: "1 \<le> round (unroundedBarGap theme) \<longrightarrow>
      \<bar>baseBarGap (withSpacing (2 * spacing (barStyle theme)) theme) - 2 * baseBarGap theme\<bar> \<le> 1 \<and>
      \<bar>baseBarGap (withDpi (2 * dpi (dimensions theme)) theme) - 2 * baseBarGap theme\<bar> \<le> 1"
    using rg unfolding g gs gd by linarith
  show ?thesis
    using w [of theme] g [of theme] c1 c2 wt wd gs gd c3 c4 unfolding t_def s_def d_def by blast
qed

lemma defaultThickness3_values:
  "baseBarWidth (withThickness 3 DEFAULT_THEME) = 2 \<and>
   baseBarWidth (withThickness 6 DEFAULT_THEME) = 5 \<and>
   round (unroundedBarWidth (withThickness 3 DEFAULT_THEME)) = 2 \<and>
   round (unroundedBarGap (withThickness 3 DEFAULT_THEME)) = 2"
  by (simp add: baseBarWidth_def unroundedBarWidth_def unroundedBarGap_def barWidthScale_def
      spacingScale_def withThickness_def DEFAULT_THEME_def)
    code_simp

theorem bar_dimensions_rounded_witness:
  "1 \<le> thickness (barStyle (withThickness 3 DEFAULT_THEME)) \<and>
   thickness (barStyle (withThickness 3 DEFAULT_THEME)) \<le> 10 \<and>
   1 \<le> spacing (barStyle (withThickness 3 DEFAULT_THEME)) \<and>
   spacing (barStyle (withThickness 3 DEFAULT_THEME)) \<le> 5 \<and>
   72 \<le> dpi (dimensions (withThickness 3 DEFAULT_THEME)) \<and>
   dpi (dimensions (withThickness 3 DEFAULT_THEME)) \<le> 1200 \<and>
   2 \<le> round (unroundedBarWidth (withThickness 3 DEFAULT_THEME)) \<and>
   1 \<le> round (unroundedBarGap (withThickness 3 DEFAULT_THEME)) \<and>
   baseBarWidth (withThickness 3 DEFAULT_THEME) = 2 \<and>
   baseBarWidth (withThickness 6 DEFAULT_THEME) = 5 \<and>
   \<bar>baseBarWidth (withThickness (2 * thickness (barStyle (withThickness 3 DEFAULT_THEME)))
        (withThickness 3 DEFAULT_THEME)) - 2 * baseBarWidth (withThickness 3 DEFAULT_THEME)\<bar> \<le> 1 \<and>
   \<bar>baseBarGap (withDpi (2 * dpi (dimensions (withThickness 3 DEFAULT_THEME)))
        (withThickness 3 DEFAULT_THEME)) - 2 * baseBarGap (withThickness 3 DEFAULT_THEME)\<bar> \<le> 1"
proof -
  have r: "1 \<le> thickness (barStyle (withThickness 3 DEFAULT_THEME))"
    "thickness (barStyle (withThickness 3 DEFAULT_THEME)) \<le> 10"
    "1 \<le> spacing (barStyle (withThickness 3 DEFAULT_THEME))"
    "spacing (barStyle (withThickness 3 DEFAULT_THEME)) \<le> 5"
    "72 \<le> dpi (dimensions (withThickness 3 DEFAULT_THEME))"
    "dpi (dimensions (withThickness 3 DEFAULT_THEME)) \<le> 1200"
    by (simp_all add: withThickness_def DEFAULT_THEME_def)
  have h1: "2 \<le> round (unroundedBarWidth (withThickness 3 DEFAULT_THEME))"
    and h2: "1 \<le> round (unroundedBarGap (withThickness 3 DEFAULT_THEME))"
    using defaultThickness3_values by simp_all
  show ?thesis
    using r h1 h2 defaultThickness3_values bar_dimensions_rounded [OF r] by blast
qed

section \<open>Batch rendering\<close>

lemma promiseAll_isl: "isl (promiseAll ps) = (\<exists>p \<in> set ps. isl p)"
  by (induction ps) (auto split: sum.splits)

lemma promiseAll_Inr: "\<forall>p \<in> set ps. \<not> isl p \<Longrightarrow> promiseAll ps = Inr (map projr ps)"
  by (induction ps) (auto split: sum.splits)

lemma setAll_map:
  "setAll results (map (\<lambda>code. (code, f code)) batch) =
     (\<lambda>code. if code \<in> set batch then Some (f code) else results code)"
proof (induction batch arbitrary: results)
  case Nil
  then show ?case by (simp add: setAll_def)
next
  case (Cons c cs)
  have "setAll results (map (\<lambda>code. (code, f code)) (c # cs)) =
          setAll (results(c \<mapsto> f c)) (map (\<lambda>code. (code, f code)) cs)"
    by (simp add: setAll_def)
  then show ?case by (auto simp: Cons.IH)
qed

lemma set_take_drop: "set (take n (drop i xs)) \<union> set (drop (i + n) xs) = set (drop i xs)"
proof -
  have "set (take n (drop i xs) @ drop n (drop i xs)) = set (drop i xs)"
    by (simp only: append_take_drop_id)
  then show ?thesis by (simp add: add.commute)
qed

lemma isl_pair: "isl (case p of Inl e \<Rightarrow> Inl e | Inr buffer \<Rightarrow> Inr (code, buffer)) = isl p"
  by (cases p) auto

lemma batchLoop_rejected:
  "\<exists>code \<in> set (drop i codes). isl (render code) \<Longrightarrow> isl (batchLoop render codes i results)"
proof (induction render codes i results rule: batchLoop.induct)
  case (1 render codes i results)
  let ?batch = "take batchSize (drop i codes)"
  let ?promises = "map (\<lambda>code. case render code of Inl e \<Rightarrow> Inl e | Inr buffer \<Rightarrow> Inr (code, buffer)) ?batch"
  from "1.prems" have lt: "i < length codes" by (cases "i < length codes") auto
  show ?case
  proof (cases "promiseAll ?promises")
    case (Inl e)
    with lt show ?thesis by (subst batchLoop.simps) simp
  next
    case (Inr batchResults)
    then have "\<not> isl (promiseAll ?promises)" by simp
    then have ok: "\<forall>code \<in> set ?batch. \<not> isl (render code)"
      by (simp add: promiseAll_isl isl_pair)
    from "1.prems" obtain code where "code \<in> set (drop i codes)" and "isl (render code)" by blast
    with ok have "code \<in> set (drop (i + batchSize) codes)"
      using set_take_drop [of batchSize i codes] by blast
    with \<open>isl (render code)\<close> have "isl (batchLoop render codes (i + batchSize) (setAll results batchResults))"
      using "1.IH" [OF lt Inr] by blast
    with lt Inr show ?thesis by (subst batchLoop.simps) simp
  qed
qed

lemma batchLoop_fulfilled:
  "\<forall>code \<in> set (drop i codes). \<not> isl (render code) \<Longrightarrow>
   batchLoop render codes i results =
     Inr (\<lambda>code. if code \<in> set (drop i codes) then Some (projr (render code)) else results code)"
proof (induction render codes i results rule: batchLoop.induct)
  case (1 render codes i results)
  let ?batch = "take batchSize (drop i codes)"
  let ?promises = "map (\<lambda>code. case render code of Inl e \<Rightarrow> Inl e | Inr buffer \<Rightarrow> Inr (code, buffer)) ?batch"
  show ?case
  proof (cases "i < length codes")
    case False
    then show ?thesis by (subst batchLoop.simps) simp
  next
    case True
    have sub: "set ?batch \<subseteq> set (drop i codes)" by (meson set_take_subset)
    with "1.prems" have ok: "\<forall>code \<in> set ?batch. \<not> isl (render code)" by blast
    then have "?promises = map (\<lambda>code. Inr (code, projr (render code))) ?batch"
      by (auto split: sum.splits)
    then have pa: "promiseAll ?promises = Inr (map (\<lambda>code. (code, projr (render code))) ?batch)"
      by (simp add: promiseAll_Inr comp_def)
    have rest: "\<forall>code \<in> set (drop (i + batchSize) codes). \<not> isl (render code)"
      using "1.prems" set_take_drop [of batchSize i codes] by blast
    have "batchLoop render codes i results =
            batchLoop render codes (i + batchSize) (setAll results (map (\<lambda>code. (code, projr (render code))) ?batch))"
      using True pa by (subst batchLoop.simps) simp
    also have "\<dots> = Inr (\<lambda>code. if code \<in> set (drop (i + batchSize) codes) then Some (projr (render code))
                             else setAll results (map (\<lambda>code. (code, projr (render code))) ?batch) code)"
      using "1.IH" [OF True pa rest] .
    also have "\<dots> = Inr (\<lambda>code. if code \<in> set (drop i codes) then Some (projr (render code)) else results code)"
      using set_take_drop [of batchSize i codes] by (auto simp: setAll_map fun_eq_iff)
    finally show ?thesis .
  qed
qed


lemma mmToPixels_default: "mmToPixels 15 300 = 177 \<and> mmToPixels 5 300 = 59"
  unfolding mmToPixels_def by code_simp

text \<open>With this library a render is rejected or not whatever the code is: the code only
  enters the content of the document, not its dimensions. A malformed code is rendered like
  any other.\<close>

lemma generateWaveCode_any_code:
  "isl (generateWaveCode sharpWithPixelLimit toUpperCase code options) =
   isl (generateWaveCode sharpWithPixelLimit toUpperCase code' options)"
  by (simp add: generateWaveCode_def sharpWithPixelLimit_def Let_def)

lemma generateWaveCode_default:
  "generateWaveCode sharpWithPixelLimit toUpperCase code noOptions =
     Inr \<lparr>svgWidth = 180, svgHeight = 60, svgDensity = 300,
          svgContent = (DEFAULT_OPTIONS, codeToWavePattern toUpperCase code)\<rparr>"
  by (simp add: generateWaveCode_def sharpWithPixelLimit_def Let_def spreadOptions_def
      noOptions_def spread_def DEFAULT_OPTIONS_def)

lemma generateThemedWaveCode_default:
  "generateThemedWaveCode sharpWithPixelLimit toUpperCase code None =
     Inr \<lparr>svgWidth = 177, svgHeight = 59, svgDensity = 300,
          svgContent = (DEFAULT_THEME, codeToWavePattern toUpperCase code)\<rparr>"
proof -
  have "width (dimensions DEFAULT_THEME) = 15" "height (dimensions DEFAULT_THEME) = 5"
    "dpi (dimensions DEFAULT_THEME) = 300"
    by (simp_all add: DEFAULT_THEME_def)
  then show ?thesis
    by (simp add: generateThemedWaveCode_def sharpWithPixelLimit_def Let_def mergeWithDefault_def
        mmToPixels_default)
qed

lemma generateWaveCode_wide:
  "generateWaveCode sharpWithPixelLimit toUpperCase code wideOptions = Inl PixelLimitExceeded"
  by (simp add: generateWaveCode_def sharpWithPixelLimit_def Let_def spreadOptions_def
      wideOptions_def noOptions_def spread_def DEFAULT_OPTIONS_def)

text \<open>
  Claim C3, as stated, fails: with options that ask for an image of ten million by sixty
  pixels, the image library rejects every render, and \<open>generateWaveCodes\<close> is rejected as a
  whole with the first rejection: the caller gets one error and no report for each item.
\<close>

theorem batch_rejected_counterexample:
  "isl (generateWaveCode sharpWithPixelLimit toUpperCase_latin1 (str ''ABC123'') wideOptions) \<and>
   isl (generateWaveCode sharpWithPixelLimit toUpperCase_latin1 (str ''XYZ789'') wideOptions) \<and>
   generateWaveCodes sharpWithPixelLimit toUpperCase_latin1 [str ''ABC123'', str ''XYZ789''] wideOptions =
     Inl PixelLimitExceeded"
  by (simp add: generateWaveCodes_def batchLoop.simps batchSize_def generateWaveCode_wide str_def)

text \<open>
  Claim C3, amended. Both batch functions are all or nothing, whatever the image library
  does: they are rejected exactly when the render of some code of the list is rejected, and
  when every render is fulfilled they return the map that gives each code of the list its
  image. No code string makes a render fail by itself: a render is rejected only when the
  library rejects the document.
\<close>

theorem batch_all_or_nothing:
  "isl (generateWaveCodes sharp toUpperCase codes options) =
     (\<exists>code \<in> set codes. isl (generateWaveCode sharp toUpperCase code options)) \<and>
   ((\<forall>code \<in> set codes. \<not> isl (generateWaveCode sharp toUpperCase code options)) \<longrightarrow>
      generateWaveCodes sharp toUpperCase codes options =
        Inr (\<lambda>code. if code \<in> set codes
                     then Some (projr (generateWaveCode sharp toUpperCase code options)) else None)) \<and>
   isl (generateThemedWaveCodes sharp' toUpperCase codes themeConfig) =
     (\<exists>code \<in> set codes. isl (generateThemedWaveCode sharp' toUpperCase code themeConfig)) \<and>
   ((\<forall>code \<in> set codes. \<not> isl (generateThemedWaveCode sharp' toUpperCase code themeConfig)) \<longrightarrow>
      generateThemedWaveCodes sharp' toUpperCase codes themeConfig =
        Inr (\<lambda>code. if code \<in> set codes
                     then Some (projr (generateThemedWaveCode sharp' toUpperCase code themeConfig))
                     else None))"
proof -
  have loop: "isl (batchLoop render codes 0 Map.empty) = (\<exists>code \<in> set codes. isl (render code)) \<and>
    ((\<forall>code \<in> set codes. \<not> isl (render code)) \<longrightarrow>
      batchLoop render codes 0 Map.empty =
        Inr (\<lambda>code. if code \<in> set codes then Some (projr (render code)) else None))"
    for render :: "jsstring \<Rightarrow> 'x + 'y"
  proof (cases "\<exists>code \<in> set codes. isl (render code)")
    case True
    then show ?thesis using batchLoop_rejected [of 0 codes render Map.empty] by auto
  next
    case False
    then have "batchLoop render codes 0 Map.empty =
        Inr (\<lambda>code. if code \<in> set codes then Some (projr (render code)) else None)"
      using batchLoop_fulfilled [of 0 codes render Map.empty] by simp
    with False show ?thesis by simp
  qed
  show ?thesis
    unfolding generateWaveCodes_def generateThemedWaveCodes_def
    using loop [of "\<lambda>code. generateWaveCode sharp toUpperCase code options"]
      loop [of "\<lambda>code. generateThemedWaveCode sharp' toUpperCase code themeConfig"]
    by blast
qed

theorem batch_all_or_nothing_witness:
  "\<not> isl (generateWaveCode sharpWithPixelLimit toUpperCase_latin1 (str ''ABC123'') noOptions) \<and>
   \<not> isl (generateWaveCode sharpWithPixelLimit toUpperCase_latin1 (str ''AB 12!'') noOptions) \<and>
   \<not> isl (generateThemedWaveCode sharpWithPixelLimit toUpperCase_latin1 (str ''ABC123'') None) \<and>
   \<not> isl (generateThemedWaveCode sharpWithPixelLimit toUpperCase_latin1 (str ''AB 12!'') None) \<and>
   generateWaveCodes sharpWithPixelLimit toUpperCase_latin1 [str ''ABC123'', str ''AB 12!''] noOptions =
     Inr [str ''ABC123'' \<mapsto>
            projr (generateWaveCode sharpWithPixelLimit toUpperCase_latin1 (str ''ABC123'') noOptions),
          str ''AB 12!'' \<mapsto>
            projr (generateWaveCode sharpWithPixelLimit toUpperCase_latin1 (str ''AB 12!'') noOptions)] \<and>
   generateThemedWaveCodes sharpWithPixelLimit toUpperCase_latin1 [str ''ABC123'', str ''AB 12!''] None =
     Inr [str ''ABC123'' \<mapsto>
            projr (generateThemedWaveCode sharpWithPixelLimit toUpperCase_latin1 (str ''ABC123'') None),
          str ''AB 12!'' \<mapsto>
            projr (generateThemedWaveCode sharpWithPixelLimit toUpperCase_latin1 (str ''AB 12!'') None)]"
proof -
  have h1: "\<forall>code \<in> set [str ''ABC123'', str ''AB 12!''].
      \<not> isl (generateWaveCode sharpWithPixelLimit toUpperCase_latin1 code noOptions)"
    by (simp add: generateWaveCode_default)
  have h2: "\<forall>code \<in> set [str ''ABC123'', str ''AB 12!''].
      \<not> isl (generateThemedWaveCode sharpWithPixelLimit toUpperCase_latin1 code None)"
    by (simp add: generateThemedWaveCode_default)
  have d: "str ''ABC123'' \<noteq> str ''AB 12!''" by (simp add: str_def)
  show ?thesis
    using h1 h2 d
      batch_all_or_nothing [of sharpWithPixelLimit toUpperCase_latin1 "[str ''ABC123'', str ''AB 12!'']"
        noOptions sharpWithPixelLimit None]
    by (auto simp: fun_eq_iff)
qed

section \<open>Generating distinct codes\<close>

lemma setAdd_set: "set (setAdd x xs) = insert x (set xs)"
  by (auto simp: setAdd_def)

lemma setAdd_distinct: "distinct xs \<Longrightarrow> distinct (setAdd x xs)"
  by (simp add: setAdd_def)

lemma setAdd_length: "length (setAdd x xs) \<le> Suc (length xs)"
  by (simp add: setAdd_def)

lemma generateUniqueCodes_loop_returns:
  assumes "set codes = generateCode ` {..<n}" and "distinct codes"
    and "int (length codes) \<le> count"
    and "count \<le> int (card (generateCode ` {..<m}))"
  shows "\<exists>res k. generateUniqueCodes_loop generateCode count codes n = Some res \<and>
           distinct res \<and> int (length res) = count \<and> set res = generateCode ` {..<k}"
  using assms
proof (induction "m - n" arbitrary: n codes)
  case 0
  then have "{..<m} \<subseteq> {..<n}" by auto
  then have "card (generateCode ` {..<m}) \<le> card (generateCode ` {..<n})"
    by (intro card_mono) auto
  also have "\<dots> = length codes"
    using "0.prems"(1,2) by (metis distinct_card)
  finally have "int (length codes) = count" using "0.prems"(3,4) by linarith
  then show ?case
    using "0.prems"(1,2) by (subst generateUniqueCodes_loop.simps) auto
next
  case (Suc d)
  show ?case
  proof (cases "int (length codes) < count")
    case False
    with Suc.prems(3) have "int (length codes) = count" by simp
    then show ?thesis
      using Suc.prems(1,2) by (subst generateUniqueCodes_loop.simps) auto
  next
    case True
    let ?codes = "setAdd (generateCode n) codes"
    have s: "set ?codes = generateCode ` {..<Suc n}"
      by (simp add: setAdd_set Suc.prems(1) lessThan_Suc)
    have d: "distinct ?codes" using Suc.prems(2) by (rule setAdd_distinct)
    have l: "int (length ?codes) \<le> count"
      using True setAdd_length [of "generateCode n" codes] by linarith
    from Suc.hyps(2) have "d = m - Suc n" by simp
    from Suc.hyps(1) [OF this s d l Suc.prems(4)]
    obtain res k where "generateUniqueCodes_loop generateCode count ?codes (Suc n) = Some res"
      and "distinct res" and "int (length res) = count" and "set res = generateCode ` {..<k}"
      by blast
    with True show ?thesis by (subst generateUniqueCodes_loop.simps) auto
  qed
qed

text \<open>
  Claim C8. Let the generator return valid codes only, and let its sequence of results
  contain at least \<open>count\<close> different codes (which is what a uniform random choice among
  \<open>36^6\<close> codes gives for a \<open>count\<close> far below \<open>36^6\<close>). Then \<open>generateUniqueCodes\<close> returns: its
  result has exactly \<open>count\<close> codes, they are pairwise distinct and valid, and they are the
  codes that the calls made so far returned, every repeated one being kept once only.
\<close>

theorem generateUniqueCodes_returns:
  assumes "0 \<le> count"
    and "\<forall>n. validPattern (generateCode n)"
    and "\<exists>m. count \<le> int (card (generateCode ` {..<m}))"
  shows "\<exists>codes k. generateUniqueCodes generateCode count = Some codes \<and>
           int (length codes) = count \<and> distinct codes \<and> list_all validPattern codes \<and>
           set codes = generateCode ` {..<k}"
proof -
  from assms(3) obtain m where m: "count \<le> int (card (generateCode ` {..<m}))" ..
  have "\<exists>res k. generateUniqueCodes_loop generateCode count [] 0 = Some res \<and>
           distinct res \<and> int (length res) = count \<and> set res = generateCode ` {..<k}"
    using assms(1) m by (intro generateUniqueCodes_loop_returns [where m = m]) auto
  then obtain res k where r: "generateUniqueCodes generateCode count = Some res"
    "distinct res" "int (length res) = count" "set res = generateCode ` {..<k}"
    by (auto simp: generateUniqueCodes_def)
  from r(4) assms(2) have "list_all validPattern res"
    by (auto simp: list_all_iff)
  with r show ?thesis by blast
qed

lemma exampleDraws_valid: "validPattern (exampleDraws n)"
  by (simp add: exampleDraws_def validPattern_def inClass_AZ09_def str_def)

lemma generateUniqueCodes_example:
  "generateUniqueCodes exampleDraws 3 = Some [str ''K7QZ2M'', str ''ABC123'', str ''XYZ789'']"
  by (simp add: generateUniqueCodes_def generateUniqueCodes_loop.simps exampleDraws_def
      setAdd_def str_def)

theorem generateUniqueCodes_returns_witness:
  "(0::int) \<le> 3 \<and> (\<forall>n. validPattern (exampleDraws n)) \<and>
   (\<exists>m. 3 \<le> int (card (exampleDraws ` {..<m}))) \<and>
   (\<exists>codes k. generateUniqueCodes exampleDraws 3 = Some codes \<and>
           int (length codes) = 3 \<and> distinct codes \<and> list_all validPattern codes \<and>
           set codes = exampleDraws ` {..<k})"
proof -
  have h1: "(0::int) \<le> 3" by simp
  have h2: "\<forall>n. validPattern (exampleDraws n)" by (simp add: exampleDraws_valid)
  have "exampleDraws ` {..<4} = {str ''K7QZ2M'', str ''ABC123'', str ''XYZ789''}"
    by (auto simp: exampleDraws_def lessThan_Suc numeral_eq_Suc image_iff)
  then have "card (exampleDraws ` {..<4}) = 3" by (simp add: str_def)
  then have h3: "\<exists>m. 3 \<le> int (card (exampleDraws ` {..<m}))" by (intro exI [of _ 4]) simp
  show ?thesis using h1 h2 h3 generateUniqueCodes_returns [OF h1 h2 h3] by blast
qed

text \<open>The hypothesis on the generator cannot be dropped: with a generator that returns the
  same code at every call, the loop for two codes never ends.\<close>

lemma singleton_list: "set codes \<subseteq> {c} \<Longrightarrow> distinct codes \<Longrightarrow> length codes \<le> 1"
proof -
  assume "set codes \<subseteq> {c}" and "distinct codes"
  then have "card (set codes) \<le> card {c}" by (intro card_mono) auto
  with \<open>distinct codes\<close> show ?thesis by (simp add: distinct_card)
qed

lemma generateUniqueCodes_loop_stuck:
  assumes "generateUniqueCodes_loop generateCode count codes n = Some res"
  shows "(\<forall>k. generateCode k = c) \<longrightarrow> set codes \<subseteq> {c} \<longrightarrow> distinct codes \<longrightarrow> 2 \<le> count \<longrightarrow> False"
proof (rule generateUniqueCodes_loop.raw_induct
    [where P = "\<lambda>generateCode count codes n res.
       (\<forall>k. generateCode k = c) \<longrightarrow> set codes \<subseteq> {c} \<longrightarrow> distinct codes \<longrightarrow> 2 \<le> count \<longrightarrow> False",
     OF _ assms])
  fix loop :: "(nat \<Rightarrow> jsstring) \<Rightarrow> int \<Rightarrow> jsstring list \<Rightarrow> nat \<Rightarrow> jsstring list option"
    and gc count' codes' n' res'
  assume IH: "\<And>gc count codes n res. loop gc count codes n = Some res \<Longrightarrow>
       (\<forall>k. gc k = c) \<longrightarrow> set codes \<subseteq> {c} \<longrightarrow> distinct codes \<longrightarrow> 2 \<le> count \<longrightarrow> False"
    and step: "(if int (length codes') < count' then loop gc count' (setAdd (gc n') codes') (Suc n')
               else Some codes') = Some res'"
  show "(\<forall>k. gc k = c) \<longrightarrow> set codes' \<subseteq> {c} \<longrightarrow> distinct codes' \<longrightarrow> 2 \<le> count' \<longrightarrow> False"
  proof (intro impI)
    assume c: "\<forall>k. gc k = c" and s: "set codes' \<subseteq> {c}" and d: "distinct codes'" and two: "2 \<le> count'"
    from s d have "length codes' \<le> 1" by (rule singleton_list)
    with two have lt: "int (length codes') < count'" by simp
    with step have call: "loop gc count' (setAdd (gc n') codes') (Suc n') = Some res'" by simp
    have "set (setAdd (gc n') codes') \<subseteq> {c}" using c s by (auto simp: setAdd_def)
    moreover have "distinct (setAdd (gc n') codes')" using d by (simp add: setAdd_def)
    ultimately show False using IH [OF call] c two by blast
  qed
qed

lemma generateUniqueCodes_constant_source:
  "generateUniqueCodes (\<lambda>n. str ''AAAAAA'') 2 = None"
proof (cases "generateUniqueCodes (\<lambda>n. str ''AAAAAA'') 2")
  case None
  then show ?thesis .
next
  case (Some res)
  then have False
    unfolding generateUniqueCodes_def
    using generateUniqueCodes_loop_stuck [where c = "str ''AAAAAA''"] by fastforce
  then show ?thesis ..
qed

end
